theory Spec2Isabelle
  imports Complex_Main
begin

section \<open>The surface map class of starry (src/starry2/maps.h)\<close>

text \<open>
  The development embeds \<^verbatim>\<open>maps::Map<T, U>\<close> of \<^verbatim>\<open>src/starry2/maps.h\<close> together with the
  unit vectors of \<^verbatim>\<open>src/starry/include/utils.h\<close>. Every member function becomes a function
  from the state of the object to an outcome and the state it leaves behind; a C++ exception
  is the outcome \<open>Raise\<close>, and an access outside an Eigen vector, which Eigen does not check
  in a release build, is the outcome \<open>Undefined\<close>. The arithmetic is the one of \<^verbatim>\<open>double\<close>,
  with its rounding, overflow and underflow.
\<close>

subsection \<open>Scalars\<close>

text \<open>
  The scalar types \<^verbatim>\<open>T\<close> and \<^verbatim>\<open>U\<close> are \<^verbatim>\<open>double\<close> in the default instantiation: the binary64
  format of IEEE 754. A scalar is a finite real, an infinity with its sign (\<open>Inf True\<close> is the
  positive one) or not-a-number. The finite doubles are the values \<open>k \<times> 2\<^sup>j\<close> with
  \<open>\<bar>k\<bar> < 2\<^sup>5\<^sup>3\<close> and \<open>j \<ge> - 1074\<close> below \<open>2\<^sup>1\<^sup>0\<^sup>2\<^sup>4\<close>. \<open>rnd\<close> rounds a real to the nearest of them,
  a tie to the one with an even significand: \<open>ulp x\<close> is the distance of the doubles around
  \<open>x\<close> (the exponent is at least \<open>- 1022\<close>, so that small values underflow gradually, to
  zero in the end), and a result that reaches \<open>2\<^sup>1\<^sup>0\<^sup>2\<^sup>4\<close> is an infinity. The two zeros of the
  format are one value here: they compare equal, and a division by zero takes the sign of
  a positive zero. The casts \<^verbatim>\<open>T(.)\<close> and \<^verbatim>\<open>U(.)\<close> are the identity.
\<close>

datatype scalar = Fin real | Inf bool | NaN

definition expo :: "real \<Rightarrow> int" where
  "expo x = max \<lfloor>log 2 \<bar>x\<bar>\<rfloor> (- 1022)"

definition ulp :: "real \<Rightarrow> real" where
  "ulp x = 2 powr of_int (expo x - 52)"

definition round_even :: "real \<Rightarrow> int" where
  "round_even t =
     (let f = \<lfloor>t\<rfloor>; d = t - of_int f in
      if d < 1 / 2 then f else if 1 / 2 < d then f + 1 else if even f then f else f + 1)"

definition rnd :: "real \<Rightarrow> scalar" where
  "rnd x =
     (if x = 0 then Fin 0
      else
        let r = of_int (round_even (x / ulp x)) * ulp x in
        if 2 powr 1024 \<le> \<bar>r\<bar> then Inf (0 < x) else Fin r)"

text \<open>
  The operations \<^verbatim>\<open>+\<close>, \<^verbatim>\<open>-\<close>, \<^verbatim>\<open>*\<close>, \<^verbatim>\<open>/\<close> and \<^verbatim>\<open>sqrt\<close> on doubles, which IEEE 754 defines as the
  exact result, rounded.
\<close>

fun s_neg :: "scalar \<Rightarrow> scalar" where
  "s_neg (Fin a) = Fin (- a)"
| "s_neg (Inf s) = Inf (\<not> s)"
| "s_neg NaN = NaN"

fun s_add :: "scalar \<Rightarrow> scalar \<Rightarrow> scalar" where
  "s_add (Fin a) (Fin b) = rnd (a + b)"
| "s_add (Fin a) (Inf s) = Inf s"
| "s_add (Inf s) (Fin b) = Inf s"
| "s_add (Inf s) (Inf t) = (if s = t then Inf s else NaN)"
| "s_add NaN _ = NaN"
| "s_add _ NaN = NaN"

definition s_sub :: "scalar \<Rightarrow> scalar \<Rightarrow> scalar" where
  "s_sub a b = s_add a (s_neg b)"

fun s_mul :: "scalar \<Rightarrow> scalar \<Rightarrow> scalar" where
  "s_mul (Fin a) (Fin b) = rnd (a * b)"
| "s_mul (Fin a) (Inf s) = (if a = 0 then NaN else Inf (s = (0 < a)))"
| "s_mul (Inf s) (Fin b) = (if b = 0 then NaN else Inf (s = (0 < b)))"
| "s_mul (Inf s) (Inf t) = Inf (s = t)"
| "s_mul NaN _ = NaN"
| "s_mul _ NaN = NaN"

fun s_div :: "scalar \<Rightarrow> scalar \<Rightarrow> scalar" where
  "s_div (Fin a) (Fin b) =
     (if b = 0 then (if a = 0 then NaN else Inf (0 < a)) else rnd (a / b))"
| "s_div (Fin a) (Inf s) = Fin 0"
| "s_div (Inf s) (Fin b) = Inf (s = (0 \<le> b))"
| "s_div (Inf s) (Inf t) = NaN"
| "s_div NaN _ = NaN"
| "s_div _ NaN = NaN"

fun s_sqrt :: "scalar \<Rightarrow> scalar" where
  "s_sqrt (Fin a) = (if a < 0 then NaN else rnd (sqrt a))"
| "s_sqrt (Inf s) = (if s then Inf True else NaN)"
| "s_sqrt NaN = NaN"

text \<open>The comparisons \<^verbatim>\<open>==\<close>, \<^verbatim>\<open>!=\<close> and \<^verbatim>\<open>>\<close>: every comparison with NaN but \<^verbatim>\<open>!=\<close> is false.\<close>

fun s_eq :: "scalar \<Rightarrow> scalar \<Rightarrow> bool" where
  "s_eq NaN _ = False"
| "s_eq _ NaN = False"
| "s_eq a b = (a = b)"

definition s_ne :: "scalar \<Rightarrow> scalar \<Rightarrow> bool" where
  "s_ne a b = (\<not> s_eq a b)"

fun s_gt :: "scalar \<Rightarrow> scalar \<Rightarrow> bool" where
  "s_gt (Fin a) (Fin b) = (b < a)"
| "s_gt (Fin a) (Inf s) = (\<not> s)"
| "s_gt (Inf s) (Fin b) = s"
| "s_gt (Inf s) (Inf t) = (s \<and> \<not> t)"
| "s_gt NaN _ = False"
| "s_gt _ NaN = False"

text \<open>
  \<^verbatim>\<open>pi<T>()\<close> of utils.h, line 142: the literal \<^verbatim>\<open>M_PI\<close> of line 60, which the compiler rounds
  to a double.
\<close>

definition M_PI :: real where
  "M_PI = 314159265358979323846264338328 / 10 ^ 29"

definition s_pi :: scalar where
  "s_pi = rnd M_PI"

subsection \<open>Vectors and matrices\<close>

text \<open>
  \<^verbatim>\<open>Vector<T>\<close> is a list of scalars, a matrix the list of its rows, and \<^verbatim>\<open>UnitVector<T>\<close>
  (utils.h, line 120) a fixed triple. \<open>vec_get\<close> and \<open>vec_set\<close> are the coefficient
  accesses \<^verbatim>\<open>v(n)\<close> and \<^verbatim>\<open>v(n) = c\<close> with an \<^verbatim>\<open>int\<close> index: outside the vector they have no
  value, which the callers turn into \<open>Undefined\<close>.
\<close>

type_synonym vec = "scalar list"
type_synonym matrix = "scalar list list"
type_synonym unit_vector = "scalar \<times> scalar \<times> scalar"

definition in_range :: "int \<Rightarrow> vec \<Rightarrow> bool" where
  "in_range n v = (0 \<le> n \<and> n < int (length v))"

definition vec_get :: "vec \<Rightarrow> int \<Rightarrow> scalar option" where
  "vec_get v n = (if in_range n v then Some (v ! nat n) else None)"

definition vec_set :: "vec \<Rightarrow> int \<Rightarrow> scalar \<Rightarrow> vec option" where
  "vec_set v n c = (if in_range n v then Some (v[nat n := c]) else None)"

definition Zero :: "int \<Rightarrow> vec" where
  "Zero n = replicate (nat n) (Fin 0)"

text \<open>\<^verbatim>\<open>v.segment(i, n)\<close>: the \<open>n\<close> coefficients of \<open>v\<close> from position \<open>i\<close>.\<close>

definition segment :: "vec \<Rightarrow> nat \<Rightarrow> nat \<Rightarrow> vec" where
  "segment v i n = take n (drop i v)"

text \<open>\<^verbatim>\<open>yhat<T>()\<close> of utils.h, lines 194 and 204 to 207.\<close>

definition yhat :: unit_vector where
  "yhat = (Fin 0, Fin 1, Fin 0)"

subsection \<open>Outcomes\<close>

datatype error = ValueError | IndexError | NotImplementedError

datatype 'a outcome = Ok 'a | Raise error | Undefined

text \<open>The \<^verbatim>\<open>int\<close> of the source has 32 bits; an overflowing signed operation is undefined.\<close>

definition INT_MAX :: int where
  "INT_MAX = 2147483647"

definition STARRY_MAX_LMAX :: int where
  "STARRY_MAX_LMAX = 50"

subsection \<open>The collaborators that are not in maps.h\<close>

text \<open>
  \<^verbatim>\<open>basis::Basis<T>\<close> (basis.h) and \<^verbatim>\<open>rotation::Wigner<T>\<close> (rotation.h) are included by maps.h
  and declared elsewhere. Of the basis the map reads the matrices \<^verbatim>\<open>A1\<close> and \<^verbatim>\<open>A\<close> and the row
  vector \<^verbatim>\<open>rT\<close>. The Wigner object keeps references to the map's \<^verbatim>\<open>y\<close> and \<^verbatim>\<open>axis\<close> and has a
  private cache: its state is a type parameter \<open>'w\<close>, and its constructor and the member
  functions the map calls are the fields of \<open>externals\<close>. Each of them receives the current
  \<^verbatim>\<open>y\<close> and \<^verbatim>\<open>axis\<close>, returns the new state of the Wigner object, and \<open>Wigner_rotate\<close> returns in
  addition the contents it writes to its output argument.

  The products of Eigen and the functions \<^verbatim>\<open>pow\<close>, \<^verbatim>\<open>cos\<close> and \<^verbatim>\<open>sin\<close> of the C library are
  parameters as well: the order in which Eigen adds the terms of a product, and with it the
  rounding of the sum, is Eigen's choice, and the standard does not give the last bit of the
  library functions. \<open>Eigen_dot u v\<close> is \<^verbatim>\<open>u.dot(v)\<close> for two vectors of one size,
  \<open>Eigen_row r v\<close> is one coefficient of a matrix times a vector, from the row \<open>r\<close> of the
  matrix, and \<open>std_pow x k\<close> is \<^verbatim>\<open>pow(x, k)\<close> with an \<^verbatim>\<open>int\<close> exponent.
\<close>

record Basis =
  A1 :: matrix
  A :: matrix
  rT :: vec

record 'w externals =
  Basis_ctor :: "int \<Rightarrow> error + Basis"
  Wigner_ctor :: "int \<Rightarrow> vec \<Rightarrow> unit_vector \<Rightarrow> error + 'w"
  Wigner_update :: "vec \<Rightarrow> unit_vector \<Rightarrow> 'w \<Rightarrow> 'w"
  Wigner_rotate :: "vec \<Rightarrow> unit_vector \<Rightarrow> scalar \<Rightarrow> scalar \<Rightarrow> 'w \<Rightarrow> vec \<times> 'w"
  Wigner_compute :: "vec \<Rightarrow> unit_vector \<Rightarrow> scalar \<Rightarrow> scalar \<Rightarrow> 'w \<Rightarrow> 'w"
  Wigner_R :: "'w \<Rightarrow> nat \<Rightarrow> matrix"
  Eigen_dot :: "vec \<Rightarrow> vec \<Rightarrow> scalar"
  Eigen_row :: "vec \<Rightarrow> vec \<Rightarrow> scalar"
  std_pow :: "scalar \<Rightarrow> int \<Rightarrow> scalar"
  std_cos :: "scalar \<Rightarrow> scalar"
  std_sin :: "scalar \<Rightarrow> scalar"

text \<open>A matrix times a vector: one coefficient for every row of the matrix.\<close>

definition mat_vec :: "'w externals \<Rightarrow> matrix \<Rightarrow> vec \<Rightarrow> vec" where
  "mat_vec ext M v = map (\<lambda>row. Eigen_row ext row v) M"

subsection \<open>The state of a map\<close>

text \<open>
  The members of \<^verbatim>\<open>Map\<close> (maps.h, lines 43 to 62). The gradient buffers \<^verbatim>\<open>dI\<close> and \<^verbatim>\<open>dF\<close> and
  their name tables are outputs of the gradient code only and are not part of the record.
  \<^verbatim>\<open>tmp_vec_ptr\<close> points to \<^verbatim>\<open>p\<close> or to \<^verbatim>\<open>tmp_vec\<close>, and to nothing before the first evaluation.
\<close>

datatype vec_ptr = Unset | Ptr_p | Ptr_tmp_vec

record 'w Map =
  lmax :: int
  N :: int
  y :: vec
  p :: vec
  g :: vec
  axis :: unit_vector
  B :: Basis
  W :: 'w
  Y00_is_unity :: bool
  tmp_vec :: vec
  tmp_col_vec :: vec
  tmp_vec_ptr :: vec_ptr

subsection \<open>Housekeeping\<close>

text \<open>\<^verbatim>\<open>Map::update\<close>, lines 137 to 147.\<close>

definition update :: "'w externals \<Rightarrow> 'w Map \<Rightarrow> 'w Map" where
  "update ext st =
     (let st1 = st\<lparr>p := mat_vec ext (A1 (B st)) (y st)\<rparr>;
          st2 = st1\<lparr>g := mat_vec ext (A (B st1)) (y st1)\<rparr>
      in st2\<lparr>W := Wigner_update ext (y st2) (axis st2) (W st2)\<rparr>)"

text \<open>
  \<^verbatim>\<open>Map::reset\<close>, lines 150 to 156. \<^verbatim>\<open>y.setZero(N)\<close> resizes \<^verbatim>\<open>y\<close> to \<^verbatim>\<open>N\<close> zeros (a negative
  size is refused by Eigen's assertion only); \<^verbatim>\<open>y(0) = 1\<close> is outside the vector when \<^verbatim>\<open>N\<close> is 0.
\<close>

definition reset :: "'w externals \<Rightarrow> 'w Map \<Rightarrow> unit outcome \<times> 'w Map" where
  "reset ext st =
     (if N st < 0 then (Undefined, st)
      else
        let st1 = st\<lparr>y := Zero (N st)\<rparr> in
        if Y00_is_unity st1 then
          (case vec_set (y st1) 0 (Fin 1) of
             None \<Rightarrow> (Undefined, st1)
           | Some v \<Rightarrow> (Ok (), update ext (st1\<lparr>y := v, axis := yhat\<rparr>)))
        else (Ok (), update ext (st1\<lparr>axis := yhat\<rparr>)))"

subsection \<open>Construction\<close>

text \<open>
  \<^verbatim>\<open>Map::Map\<close>, lines 75 to 103. The members are initialised in the order of their
  declaration: \<^verbatim>\<open>lmax\<close>, \<^verbatim>\<open>N\<close>, \<^verbatim>\<open>y\<close>, \<^verbatim>\<open>axis\<close>, \<^verbatim>\<open>B\<close>, \<^verbatim>\<open>W\<close>, the flag and the two temporaries;
  \<^verbatim>\<open>p\<close> and \<^verbatim>\<open>g\<close> start empty. The body fills the name tables and calls \<^verbatim>\<open>reset()\<close>. An exception
  of a member's constructor leaves the constructor of the map. Nothing in the constructor
  compares \<^verbatim>\<open>lmax\<close> with a bound; \<^verbatim>\<open>(lmax + 1) * (lmax + 1)\<close> is undefined when it overflows.
  The largest \<^verbatim>\<open>N\<close> below the overflow is \<open>46340\<^sup>2\<close>, so \<^verbatim>\<open>3 + N\<close> and \<^verbatim>\<open>4 + N\<close> never overflow.
\<close>

definition Map_ctor :: "'w externals \<Rightarrow> int \<Rightarrow> bool \<Rightarrow> 'w Map outcome" where
  "Map_ctor ext lmax0 flag =
     (if INT_MAX < lmax0 + 1 \<or> INT_MAX < (lmax0 + 1) * (lmax0 + 1) then Undefined
      else
        let n = (lmax0 + 1) * (lmax0 + 1) in
        case Basis_ctor ext lmax0 of
          Inl e \<Rightarrow> Raise e
        | Inr b \<Rightarrow>
           (case Wigner_ctor ext lmax0 (Zero n) yhat of
              Inl e \<Rightarrow> Raise e
            | Inr w \<Rightarrow>
               (case reset ext
                   \<lparr>lmax = lmax0, N = n, y = Zero n, p = [], g = [], axis = yhat,
                    B = b, W = w, Y00_is_unity = flag,
                    tmp_vec = Zero n, tmp_col_vec = Zero n, tmp_vec_ptr = Unset\<rparr> of
                  (Ok u, st) \<Rightarrow> Ok st
                | (Raise e, st) \<Rightarrow> Raise e
                | (Undefined, st) \<Rightarrow> Undefined)))"

subsection \<open>Coefficient access\<close>

text \<open>\<^verbatim>\<open>Map::setCoeff(int, int, U)\<close>, lines 166 to 178.\<close>

definition setCoeff :: "'w externals \<Rightarrow> int \<Rightarrow> int \<Rightarrow> scalar \<Rightarrow> 'w Map \<Rightarrow> unit outcome \<times> 'w Map" where
  "setCoeff ext l m coeff st =
     (if l = 0 \<and> Y00_is_unity st \<and> s_ne coeff (Fin 1) then (Raise ValueError, st)
      else if 0 \<le> l \<and> l \<le> lmax st \<and> - l \<le> m \<and> m \<le> l then
        (let n = l * l + l + m in
         case vec_set (y st) n coeff of
           None \<Rightarrow> (Undefined, st)
         | Some v \<Rightarrow> (Ok (), update ext (st\<lparr>y := v\<rparr>)))
      else (Raise IndexError, st))"

text \<open>
  The loop of \<^verbatim>\<open>Map::setCoeff(const Vector<int>&, const Vector<U>&)\<close>, lines 189 to 198, over
  the pairs \<^verbatim>\<open>(inds(i), coeffs(i))\<close>: each pair is checked and written before the next one
  is looked at, and an exception leaves the loop with the earlier writes in place.
\<close>

fun setCoeff_loop :: "(int \<times> scalar) list \<Rightarrow> 'w Map \<Rightarrow> unit outcome \<times> 'w Map" where
  "setCoeff_loop [] st = (Ok (), st)"
| "setCoeff_loop ((n, c) # rest) st =
     (if n = 0 \<and> Y00_is_unity st \<and> s_ne c (Fin 1) then (Raise ValueError, st)
      else if n < 0 \<or> n > N st then (Raise IndexError, st)
      else
        case vec_set (y st) n c of
          None \<Rightarrow> (Undefined, st)
        | Some v \<Rightarrow> setCoeff_loop rest (st\<lparr>y := v\<rparr>))"

text \<open>\<^verbatim>\<open>Map::setCoeff(const Vector<int>&, const Vector<U>&)\<close>, lines 182 to 203.\<close>

definition setCoeff_inds :: "'w externals \<Rightarrow> int list \<Rightarrow> scalar list \<Rightarrow> 'w Map \<Rightarrow> unit outcome \<times> 'w Map" where
  "setCoeff_inds ext inds coeffs st =
     (if length inds \<noteq> length coeffs then (Raise IndexError, st)
      else
        case setCoeff_loop (zip inds coeffs) st of
          (Ok u, st1) \<Rightarrow> (Ok (), update ext st1)
        | (r, st1) \<Rightarrow> (r, st1))"

text \<open>\<^verbatim>\<open>Map::getCoeff(int, int)\<close>, lines 207 to 212.\<close>

definition getCoeff :: "int \<Rightarrow> int \<Rightarrow> 'w Map \<Rightarrow> scalar outcome" where
  "getCoeff l m st =
     (if 0 \<le> l \<and> l \<le> lmax st \<and> - l \<le> m \<and> m \<le> l then
        (case vec_get (y st) (l * l + l + m) of
           None \<Rightarrow> Undefined
         | Some c \<Rightarrow> Ok c)
      else Raise IndexError)"

text \<open>
  \<^verbatim>\<open>Map::getCoeff(const Vector<int>&)\<close>, lines 216 to 225: the result vector is filled from
  the left, and the first index that fails the test ends the call.
\<close>

fun getCoeff_inds :: "int list \<Rightarrow> 'w Map \<Rightarrow> vec outcome" where
  "getCoeff_inds [] st = Ok []"
| "getCoeff_inds (n # rest) st =
     (if n < 0 \<or> n > N st then Raise IndexError
      else
        case vec_get (y st) n of
          None \<Rightarrow> Undefined
        | Some c \<Rightarrow>
           (case getCoeff_inds rest st of
              Ok cs \<Rightarrow> Ok (c # cs)
            | r \<Rightarrow> r))"

text \<open>The read accessors, lines 246 to 272.\<close>

definition getAxis :: "'w Map \<Rightarrow> unit_vector" where
  "getAxis st = axis st"

definition getY :: "'w Map \<Rightarrow> vec" where
  "getY st = y st"

definition getP :: "'w Map \<Rightarrow> vec" where
  "getP st = p st"

definition getG :: "'w Map \<Rightarrow> vec" where
  "getG st = g st"

definition getR :: "'w Map \<Rightarrow> vec" where
  "getR st = rT (B st)"

text \<open>
  \<^verbatim>\<open>Map::setAxis\<close>, lines 229 to 242: the three components are stored and divided by the
  square root of the sum of their squares, with no test of the divisor.
\<close>

definition setAxis :: "'w externals \<Rightarrow> unit_vector \<Rightarrow> 'w Map \<Rightarrow> 'w Map" where
  "setAxis ext new_axis st =
     (case new_axis of (a0, a1, a2) \<Rightarrow>
        let st1 = st\<lparr>axis := (a0, a1, a2)\<rparr>;
            nrm = s_sqrt (s_add (s_add (s_mul a0 a0) (s_mul a1 a1)) (s_mul a2 a2));
            st2 = st1\<lparr>axis := (s_div a0 nrm, s_div a1 nrm, s_div a2 nrm)\<rparr>
        in st2\<lparr>W := Wigner_update ext (y st2) (axis st2) (W st2)\<rparr>)"

subsection \<open>Rotation\<close>

text \<open>\<^verbatim>\<open>theta_deg * (pi / 180)\<close>, as in lines 327, 387 and 420.\<close>

definition radians :: "scalar \<Rightarrow> scalar" where
  "radians theta_deg = s_mul theta_deg (s_div s_pi (Fin 180))"

text \<open>\<^verbatim>\<open>Map::rotate\<close>, lines 325 to 330: the output argument of \<^verbatim>\<open>W.rotate\<close> is \<^verbatim>\<open>y\<close> itself.\<close>

definition rotate :: "'w externals \<Rightarrow> scalar \<Rightarrow> 'w Map \<Rightarrow> 'w Map" where
  "rotate ext theta_deg st =
     (let theta = radians theta_deg in
      case Wigner_rotate ext (y st) (axis st) (std_cos ext theta) (std_sin ext theta) (W st) of
        (out, w) \<Rightarrow> update ext (st\<lparr>y := out, W := w\<rparr>))"

subsection \<open>Intensity\<close>

text \<open>
  The body of the double loop of \<^verbatim>\<open>Map::poly_basis\<close>, lines 345 to 366, for one pair
  \<open>(l, m)\<close>. In the loop \<open>mu\<close> and \<open>nu\<close> are never negative, so that \<^verbatim>\<open>%\<close> and \<^verbatim>\<open>/\<close> of C++ are
  \<open>mod\<close> and \<open>div\<close>.
\<close>

definition poly_term ::
  "'w externals \<Rightarrow> scalar \<Rightarrow> scalar \<Rightarrow> scalar \<Rightarrow> int \<Rightarrow> int \<Rightarrow> scalar" where
  "poly_term ext x0 y0 z0 l m =
     (let mu = l - m; nu = l + m in
      if nu mod 2 = 0 then
        (if mu > 0 \<and> nu > 0 then
           s_mul (std_pow ext x0 (mu div 2)) (std_pow ext y0 (nu div 2))
         else if mu > 0 then std_pow ext x0 (mu div 2)
         else if nu > 0 then std_pow ext y0 (nu div 2)
         else Fin 1)
      else
        (if mu > 1 \<and> nu > 1 then
           s_mul (s_mul (std_pow ext x0 ((mu - 1) div 2)) (std_pow ext y0 ((nu - 1) div 2))) z0
         else if mu > 1 then s_mul (std_pow ext x0 ((mu - 1) div 2)) z0
         else if nu > 1 then s_mul (std_pow ext y0 ((nu - 1) div 2)) z0
         else z0))"

text \<open>
  The values the double loop produces, in the order of the counter \<open>n\<close>: \<open>l\<close> runs from 0 to
  \<open>lmax\<close> and \<open>m\<close> from \<open>- l\<close> to \<open>l\<close>.
\<close>

definition poly_terms :: "'w externals \<Rightarrow> int \<Rightarrow> scalar \<Rightarrow> scalar \<Rightarrow> vec" where
  "poly_terms ext lmax0 x0 y0 =
     (let z0 = s_sqrt (s_sub (s_sub (Fin 1) (s_mul x0 x0)) (s_mul y0 y0)) in
      concat (map (\<lambda>l. map (\<lambda>m. poly_term ext x0 y0 z0 l m) [- l..l]) [0..lmax0]))"

text \<open>
  Writing the values \<open>es\<close> to the coefficients \<open>0, 1, ...\<close> of a vector leaves the rest of the
  vector as it was, and is outside the vector when there are more values than coefficients.
\<close>

definition overwrite :: "vec \<Rightarrow> vec \<Rightarrow> vec option" where
  "overwrite es v = (if length es \<le> length v then Some (es @ drop (length es) v) else None)"

text \<open>\<^verbatim>\<open>Map::poly_basis\<close>, lines 340 to 370, with the vector it fills.\<close>

definition poly_basis ::
  "'w externals \<Rightarrow> int \<Rightarrow> scalar \<Rightarrow> scalar \<Rightarrow> vec \<Rightarrow> vec option" where
  "poly_basis ext lmax0 x0 y0 basis = overwrite (poly_terms ext lmax0 x0 y0) basis"

text \<open>The vector \<^verbatim>\<open>*tmp_vec_ptr\<close>.\<close>

definition deref :: "'w Map \<Rightarrow> vec option" where
  "deref st =
     (case tmp_vec_ptr st of
        Unset \<Rightarrow> None
      | Ptr_p \<Rightarrow> Some (p st)
      | Ptr_tmp_vec \<Rightarrow> Some (tmp_vec st))"

text \<open>
  Lines 427 and 428: the blocks \<^verbatim>\<open>W.R[l] * y.segment(l * l, 2 * l + 1)\<close> for \<open>l\<close> from 0 to
  \<open>lmax\<close>, which are written to \<^verbatim>\<open>tmp_vec\<close> one after the other.
\<close>

definition rotated_blocks :: "'w externals \<Rightarrow> 'w Map \<Rightarrow> vec" where
  "rotated_blocks ext st =
     concat (map (\<lambda>l. mat_vec ext (Wigner_R ext (W st) (nat l))
                         (segment (y st) (nat (l * l)) (nat (2 * l + 1))))
               [0..lmax st])"

text \<open>
  \<^verbatim>\<open>Map::evaluate_with_gradient\<close>, lines 411 to 471, and its specialisation for the
  multiprecision scalar, lines 475 to 478, which the flag \<open>multi\<close> selects. The values of the
  automatic-differentiation scalars are the values \<^verbatim>\<open>poly_basis\<close> computes; the gradient
  \<^verbatim>\<open>dI\<close> is not modelled. The final \<^verbatim>\<open>dot\<close> of two vectors of different sizes reads outside
  one of them (Eigen tests the sizes in a debug build only).
\<close>

definition evaluate_with_gradient ::
  "'w externals \<Rightarrow> bool \<Rightarrow> scalar \<Rightarrow> scalar \<Rightarrow> scalar \<Rightarrow> 'w Map \<Rightarrow> scalar outcome \<times> 'w Map" where
  "evaluate_with_gradient ext multi theta_deg x0 y0 st =
     (if multi then (Raise NotImplementedError, st)
      else
        let theta = radians theta_deg;
            st1 = st\<lparr>W := Wigner_compute ext (y st) (axis st) (std_cos ext theta) (std_sin ext theta) (W st)\<rparr>
        in
        case (if s_eq theta (Fin 0) then Some (st1\<lparr>tmp_vec_ptr := Ptr_p\<rparr>)
              else
                case overwrite (rotated_blocks ext st1) (tmp_vec st1) of
                  None \<Rightarrow> None
                | Some v \<Rightarrow>
                    Some (st1\<lparr>tmp_vec := mat_vec ext (A1 (B st1)) v, tmp_vec_ptr := Ptr_tmp_vec\<rparr>)) of
          None \<Rightarrow> (Undefined, st1)
        | Some st2 \<Rightarrow>
           (if s_gt (s_add (s_mul x0 x0) (s_mul y0 y0)) (Fin 1) then (Ok NaN, st2)
            else
              (case overwrite (poly_terms ext (lmax st2) x0 y0) (tmp_col_vec st2) of
                 None \<Rightarrow> (Undefined, st2)
               | Some b \<Rightarrow>
                  (let st3 = st2\<lparr>tmp_col_vec := b\<rparr> in
                   case deref st3 of
                     None \<Rightarrow> (Undefined, st3)
                   | Some v \<Rightarrow>
                      if length (tmp_col_vec st3) = length v
                      then (Ok (Eigen_dot ext (tmp_col_vec st3) v), st3)
                      else (Undefined, st3)))))"

text \<open>\<^verbatim>\<open>Map::evaluate\<close>, lines 374 to 407.\<close>

definition evaluate ::
  "'w externals \<Rightarrow> bool \<Rightarrow> scalar \<Rightarrow> scalar \<Rightarrow> scalar \<Rightarrow> bool \<Rightarrow> 'w Map \<Rightarrow> scalar outcome \<times> 'w Map" where
  "evaluate ext multi theta_deg x0 y0 compute_gradient st =
     (if compute_gradient then evaluate_with_gradient ext multi theta_deg x0 y0 st
      else
        let theta = radians theta_deg;
            st2 =
              (if s_eq theta (Fin 0) then st\<lparr>tmp_vec_ptr := Ptr_p\<rparr>
               else
                 case Wigner_rotate ext (y st) (axis st) (std_cos ext theta) (std_sin ext theta) (W st) of
                   (out, w) \<Rightarrow>
                     st\<lparr>W := w, tmp_vec := mat_vec ext (A1 (B st)) out, tmp_vec_ptr := Ptr_tmp_vec\<rparr>)
        in
        if s_gt (s_add (s_mul x0 x0) (s_mul y0 y0)) (Fin 1) then (Ok NaN, st2)
        else
          case poly_basis ext (lmax st2) x0 y0 (tmp_col_vec st2) of
            None \<Rightarrow> (Undefined, st2)
          | Some b \<Rightarrow>
             (let st3 = st2\<lparr>tmp_col_vec := b\<rparr> in
              case deref st3 of
                None \<Rightarrow> (Undefined, st3)
              | Some v \<Rightarrow>
                 if length (tmp_col_vec st3) = length v
                 then (Ok (Eigen_dot ext (tmp_col_vec st3) v), st3)
                 else (Undefined, st3)))"

subsection \<open>Sequences of calls\<close>

text \<open>
  The public member functions as one datatype, and the effect of one call on the state.
  The value a call returns is dropped here; the outcome says whether it returned, raised
  or left the defined behaviour of C++.
\<close>

datatype op =
    Op_update
  | Op_reset
  | Op_setCoeff int int scalar
  | Op_setCoeff_inds "int list" "scalar list"
  | Op_getCoeff int int
  | Op_getCoeff_inds "int list"
  | Op_setAxis unit_vector
  | Op_rotate scalar
  | Op_evaluate scalar scalar scalar bool

fun forget :: "'a outcome \<Rightarrow> unit outcome" where
  "forget (Ok x) = Ok ()"
| "forget (Raise e) = Raise e"
| "forget Undefined = Undefined"

fun run_op :: "'w externals \<Rightarrow> bool \<Rightarrow> op \<Rightarrow> 'w Map \<Rightarrow> unit outcome \<times> 'w Map" where
  "run_op ext multi Op_update st = (Ok (), update ext st)"
| "run_op ext multi Op_reset st = reset ext st"
| "run_op ext multi (Op_setCoeff l m c) st = setCoeff ext l m c st"
| "run_op ext multi (Op_setCoeff_inds inds coeffs) st = setCoeff_inds ext inds coeffs st"
| "run_op ext multi (Op_getCoeff l m) st = (forget (getCoeff l m st), st)"
| "run_op ext multi (Op_getCoeff_inds inds) st = (forget (getCoeff_inds inds st), st)"
| "run_op ext multi (Op_setAxis v) st = (Ok (), setAxis ext v st)"
| "run_op ext multi (Op_rotate theta_deg) st = (Ok (), rotate ext theta_deg st)"
| "run_op ext multi (Op_evaluate theta_deg x0 y0 compute_gradient) st =
     (case evaluate ext multi theta_deg x0 y0 compute_gradient st of
        (r, st1) \<Rightarrow> (forget r, st1))"

text \<open>
  The states of a map constructed with \<open>Map(lmax0, flag)\<close>: after the constructor and after
  any further calls. A call that raises leaves the object alive, so its state counts as
  well; a call with undefined behaviour ends the sequence.
\<close>

inductive reachable :: "'w externals \<Rightarrow> bool \<Rightarrow> int \<Rightarrow> bool \<Rightarrow> 'w Map \<Rightarrow> bool"
  for ext :: "'w externals" and multi :: bool and lmax0 :: int and flag :: bool where
  constructed: "Map_ctor ext lmax0 flag = Ok st \<Longrightarrow> reachable ext multi lmax0 flag st"
| called: "reachable ext multi lmax0 flag st \<Longrightarrow> run_op ext multi c st = (r, st1) \<Longrightarrow>
     r \<noteq> Undefined \<Longrightarrow> reachable ext multi lmax0 flag st1"

text \<open>The states reached when every call so far has returned normally.\<close>

inductive returned :: "'w externals \<Rightarrow> bool \<Rightarrow> int \<Rightarrow> bool \<Rightarrow> 'w Map \<Rightarrow> bool"
  for ext :: "'w externals" and multi :: bool and lmax0 :: int and flag :: bool where
  constructed: "Map_ctor ext lmax0 flag = Ok st \<Longrightarrow> returned ext multi lmax0 flag st"
| called: "returned ext multi lmax0 flag st \<Longrightarrow> run_op ext multi c st = (Ok (), st1) \<Longrightarrow>
     returned ext multi lmax0 flag st1"

subsection \<open>Shapes\<close>

text \<open>
  The sizes the constructor gives the vectors of the map: \<^verbatim>\<open>N\<close> is \<^verbatim>\<open>(lmax + 1) * (lmax + 1)\<close>,
  and \<^verbatim>\<open>y\<close>, \<^verbatim>\<open>tmp_vec\<close> and \<^verbatim>\<open>tmp_col_vec\<close> have \<^verbatim>\<open>N\<close> coefficients.
\<close>

definition well_formed :: "'w Map \<Rightarrow> bool" where
  "well_formed st =
     (N st = (lmax st + 1) * (lmax st + 1) \<and>
      int (length (y st)) = N st \<and>
      int (length (tmp_vec st)) = N st \<and>
      int (length (tmp_col_vec st)) = N st)"

text \<open>
  Modelled from the spec: the shapes of what basis.h and rotation.h compute, which are
  not among the sources. The spec gives the basis matrices \<^verbatim>\<open>A1\<close> and \<^verbatim>\<open>A\<close> as \<open>N \<times> N\<close>
  and \<^verbatim>\<open>rT\<close> as \<open>1 \<times> N\<close>, and the rotation block \<open>R\<^sub>l\<close> as \<open>(2l+1) \<times> (2l+1)\<close>; a rotation
  returns as many coefficients as it is given.
\<close>

definition Basis_shape :: "int \<Rightarrow> Basis \<Rightarrow> bool" where
  "Basis_shape l b =
     (length (A1 b) = nat ((l + 1) * (l + 1)) \<and>
      length (A b) = nat ((l + 1) * (l + 1)) \<and>
      length (rT b) = nat ((l + 1) * (l + 1)))"

definition shapes_ok :: "'w externals \<Rightarrow> bool" where
  "shapes_ok ext =
     ((\<forall>l b. Basis_ctor ext l = Inr b \<longrightarrow> Basis_shape l b) \<and>
      (\<forall>v a c s w. length (fst (Wigner_rotate ext v a c s w)) = length v) \<and>
      (\<forall>w l. length (Wigner_R ext w l) = 2 * l + 1))"

text \<open>The caches agree with the coefficients: \<open>p = A1 y\<close> and \<open>g = A y\<close>.\<close>

definition coherent :: "'w externals \<Rightarrow> 'w Map \<Rightarrow> bool" where
  "coherent ext st =
     (p st = mat_vec ext (A1 (B st)) (y st) \<and> g st = mat_vec ext (A (B st)) (y st))"

text \<open>
  The sizes of a map constructed with degree \<open>l0\<close>: \<^verbatim>\<open>lmax\<close> and \<^verbatim>\<open>N\<close> have the values the
  constructor gave them, \<^verbatim>\<open>y\<close>, \<^verbatim>\<open>p\<close> and \<^verbatim>\<open>g\<close> have \<^verbatim>\<open>N\<close> coefficients, and the basis has
  its shape.
\<close>

definition sized :: "int \<Rightarrow> 'w Map \<Rightarrow> bool" where
  "sized l0 st =
     (lmax st = l0 \<and> N st = (l0 + 1) * (l0 + 1) \<and>
      int (length (y st)) = N st \<and> int (length (p st)) = N st \<and> int (length (g st)) = N st \<and>
      Basis_shape l0 (B st))"

text \<open>
  The test of one pair in the loop of the bulk \<^verbatim>\<open>setCoeff\<close> (lines 190 and 194), and the
  coefficient vector after the writes of a list of pairs that all pass it.
\<close>

definition offending :: "'w Map \<Rightarrow> int \<times> scalar \<Rightarrow> bool" where
  "offending st nc =
     (case nc of (n, c) \<Rightarrow>
        (n = 0 \<and> Y00_is_unity st \<and> s_ne c (Fin 1)) \<or> n < 0 \<or> n > N st)"

fun writes :: "(int \<times> scalar) list \<Rightarrow> vec \<Rightarrow> vec" where
  "writes [] v = v"
| "writes ((n, c) # rest) v = writes rest (v[nat n := c])"

subsection \<open>Concrete maps\<close>

text \<open>
  To run the map on concrete inputs: a basis whose matrices are identities, a Wigner object
  that rotates by nothing, products that add their terms from left to right, a power by
  repeated multiplication, and a correctly rounded cosine and sine. \<open>map1\<close> is what
  \<open>Map(1, false)\<close> constructs with them, \<open>map1u\<close> what \<open>Map(1, true)\<close> constructs and \<open>map0u\<close>
  what \<open>Map(0, true)\<close> constructs; \<open>map1_stale\<close> is \<open>map1\<close> with another coefficient vector
  and another axis. \<open>ext2\<close> differs from \<open>ext1\<close> in its rotation, which
  reverses the coefficient vector, and \<open>map2\<close> is a map of degree 2 with the coefficients
  \<open>1, 2, 0, 4, 8, 0, 16, 0, 32\<close>.
\<close>

definition identity :: "nat \<Rightarrow> matrix" where
  "identity n = map (\<lambda>i. map (\<lambda>j. if i = j then Fin 1 else Fin 0) [0..<n]) [0..<n]"

definition sum_of_products :: "vec \<Rightarrow> vec \<Rightarrow> scalar" where
  "sum_of_products u v = foldl s_add (Fin 0) (map2 s_mul u v)"

definition repeated_product :: "scalar \<Rightarrow> int \<Rightarrow> scalar" where
  "repeated_product x k = (s_mul x ^^ nat k) (Fin 1)"

fun rounded :: "(real \<Rightarrow> real) \<Rightarrow> scalar \<Rightarrow> scalar" where
  "rounded f (Fin a) = rnd (f a)"
| "rounded f _ = NaN"

definition ext1 :: "unit externals" where
  "ext1 =
     \<lparr>Basis_ctor = (\<lambda>l. Inr \<lparr>A1 = identity (nat ((l + 1) * (l + 1))),
                               A = identity (nat ((l + 1) * (l + 1))),
                               rT = Zero ((l + 1) * (l + 1))\<rparr>),
      Wigner_ctor = (\<lambda>l v a. Inr ()),
      Wigner_update = (\<lambda>v a w. w),
      Wigner_rotate = (\<lambda>v a c s w. (v, w)),
      Wigner_compute = (\<lambda>v a c s w. w),
      Wigner_R = (\<lambda>w l. identity (2 * l + 1)),
      Eigen_dot = sum_of_products,
      Eigen_row = sum_of_products,
      std_pow = repeated_product,
      std_cos = rounded cos,
      std_sin = rounded sin\<rparr>"

definition ext2 :: "unit externals" where
  "ext2 = ext1\<lparr>Wigner_rotate := (\<lambda>v a c s w. (rev v, w))\<rparr>"

definition basis1 :: Basis where
  "basis1 =
     \<lparr>A1 = [[Fin 1, Fin 0, Fin 0, Fin 0], [Fin 0, Fin 1, Fin 0, Fin 0],
            [Fin 0, Fin 0, Fin 1, Fin 0], [Fin 0, Fin 0, Fin 0, Fin 1]],
      A = [[Fin 1, Fin 0, Fin 0, Fin 0], [Fin 0, Fin 1, Fin 0, Fin 0],
           [Fin 0, Fin 0, Fin 1, Fin 0], [Fin 0, Fin 0, Fin 0, Fin 1]],
      rT = [Fin 0, Fin 0, Fin 0, Fin 0]\<rparr>"

definition map1 :: "unit Map" where
  "map1 =
     \<lparr>lmax = 1, N = 4, y = [Fin 0, Fin 0, Fin 0, Fin 0], p = [Fin 0, Fin 0, Fin 0, Fin 0],
      g = [Fin 0, Fin 0, Fin 0, Fin 0], axis = (Fin 0, Fin 1, Fin 0), B = basis1, W = (),
      Y00_is_unity = False, tmp_vec = [Fin 0, Fin 0, Fin 0, Fin 0],
      tmp_col_vec = [Fin 0, Fin 0, Fin 0, Fin 0], tmp_vec_ptr = Unset\<rparr>"

definition map1u :: "unit Map" where
  "map1u =
     \<lparr>lmax = 1, N = 4, y = [Fin 1, Fin 0, Fin 0, Fin 0], p = [Fin 1, Fin 0, Fin 0, Fin 0],
      g = [Fin 1, Fin 0, Fin 0, Fin 0], axis = (Fin 0, Fin 1, Fin 0), B = basis1, W = (),
      Y00_is_unity = True, tmp_vec = [Fin 0, Fin 0, Fin 0, Fin 0],
      tmp_col_vec = [Fin 0, Fin 0, Fin 0, Fin 0], tmp_vec_ptr = Unset\<rparr>"

definition map1_stale :: "unit Map" where
  "map1_stale = map1\<lparr>y := [Fin 0, Fin 5, Fin 0, Fin 0], axis := (Fin 0, Fin 0, Fin 1)\<rparr>"


definition coeffs2 :: vec where
  "coeffs2 = [Fin 1, Fin 2, Fin 0, Fin 4, Fin 8, Fin 0, Fin 16, Fin 0, Fin 32]"

definition map2 :: "unit Map" where
  "map2 =
     \<lparr>lmax = 2, N = 9, y = coeffs2, p = coeffs2, g = coeffs2, axis = (Fin 0, Fin 1, Fin 0),
      B = \<lparr>A1 = identity 9, A = identity 9, rT = Zero 9\<rparr>, W = (),
      Y00_is_unity = False, tmp_vec = Zero 9, tmp_col_vec = Zero 9, tmp_vec_ptr = Unset\<rparr>"

subsection \<open>Accumulated rounding errors\<close>




section \<open>Properties\<close>

subsection \<open>Rounding\<close>

lemma rnd_0 [simp]: "rnd 0 = Fin 0"
  by (simp add: rnd_def)

lemma round_even_of_int [simp]: "round_even (of_int m) = m"
  by (simp add: round_even_def)



lemma ulp_pos [simp]: "0 < ulp x"
  by (simp add: ulp_def)

lemma ulp_neq_0 [simp]: "ulp x \<noteq> 0"
  using ulp_pos [of x] by linarith

lemma ulp_ge_0 [simp]: "0 \<le> ulp x"
  using ulp_pos [of x] by linarith

lemma expo_bounds:
  assumes "x \<noteq> 0"
  shows "2 powr of_int \<lfloor>log 2 \<bar>x\<bar>\<rfloor> \<le> \<bar>x\<bar>" "\<bar>x\<bar> < 2 powr (of_int \<lfloor>log 2 \<bar>x\<bar>\<rfloor> + 1)"
  using floor_log_eq_powr_iff [of "\<bar>x\<bar>" 2 "\<lfloor>log 2 \<bar>x\<bar>\<rfloor>"] assms by auto

lemma floor_log_less:
  assumes "x \<noteq> 0" "\<bar>x\<bar> < (2::real) powr of_int k"
  shows "\<lfloor>log 2 \<bar>x\<bar>\<rfloor> < k"
proof -
  have "(2::real) powr of_int \<lfloor>log 2 \<bar>x\<bar>\<rfloor> < 2 powr of_int k"
    using expo_bounds(1) [OF assms(1)] assms(2) by linarith
  then show ?thesis by simp
qed


lemma abs_int_less:
  assumes "\<bar>n\<bar> < (2::int) ^ 53"
  shows "\<bar>real_of_int n\<bar> < 2 ^ 53"
proof -
  have "real_of_int \<bar>n\<bar> < real_of_int (2 ^ 53)" using assms by (rule iffD2 [OF of_int_less_iff])
  then show ?thesis by simp
qed

text \<open>Rounding leaves a double as it is.\<close>

lemma rnd_exact:
  assumes "\<bar>n\<bar> < 2 ^ 53" "- 1074 \<le> j" "\<bar>real_of_int n * 2 powr of_int j\<bar> < 2 powr 1024"
  shows "rnd (of_int n * 2 powr of_int j) = Fin (of_int n * 2 powr of_int j)"
proof (cases "n = 0")
  case True
  then show ?thesis by simp
next
  case False
  define x :: real where "x = of_int n * 2 powr of_int j"
  have x0: "x \<noteq> 0" using False by (simp add: x_def)
  have "\<bar>x\<bar> = \<bar>of_int n\<bar> * 2 powr of_int j" by (simp add: x_def abs_mult)
  also have "\<dots> < 2 ^ 53 * 2 powr of_int j"
    using abs_int_less [OF assms(1)] by simp
  also have "\<dots> = 2 powr of_int (j + 53)"
    by (simp add: powr_add powr_realpow [symmetric] mult.commute)
  finally have "\<lfloor>log 2 \<bar>x\<bar>\<rfloor> < j + 53" by (rule floor_log_less [OF x0])
  then have e: "expo x - 52 \<le> j" using assms(2) by (simp add: expo_def)
  define d where "d = nat (j - (expo x - 52))"
  have jd: "of_int j = of_int (expo x - 52) + real d" using e by (simp add: d_def)
  have "x / ulp x = of_int n * (2 powr of_int j / 2 powr of_int (expo x - 52))"
    by (simp add: x_def ulp_def)
  also have "2 powr of_int j / 2 powr of_int (expo x - 52) = (2::real) ^ d"
    unfolding jd by (simp add: powr_add powr_realpow)
  finally have q: "x / ulp x = of_int (n * 2 ^ d)" by simp
  have "real_of_int (round_even (x / ulp x)) = x / ulp x"
    unfolding q round_even_of_int ..
  moreover have "ulp x \<noteq> 0" using ulp_pos [of x] by linarith
  ultimately have "of_int (round_even (x / ulp x)) * ulp x = x"
    by simp
  then show ?thesis
    using x0 assms(3) unfolding x_def [symmetric] by (simp add: rnd_def Let_def)
qed

lemma rnd_of_int: "\<bar>n\<bar> < 2 ^ 53 \<Longrightarrow> rnd (of_int n) = Fin (of_int n)"
proof -
  assume a: "\<bar>n\<bar> < 2 ^ 53"
  have "\<bar>real_of_int n\<bar> < 2 ^ 53" using a by (rule abs_int_less)
  also have "(2::real) ^ 53 < 2 powr 1024" by simp
  finally have "\<bar>real_of_int n * 2 powr of_int 0\<bar> < 2 powr 1024" by simp
  from rnd_exact [OF a _ this] show ?thesis by simp
qed

lemma rnd_numeral [simp]:
  "(numeral k :: int) < 2 ^ 53 \<Longrightarrow> rnd (numeral k) = Fin (numeral k)"
  using rnd_of_int [of "numeral k"] by simp

lemma rnd_neg_numeral [simp]:
  "(numeral k :: int) < 2 ^ 53 \<Longrightarrow> rnd (- numeral k) = Fin (- numeral k)"
  using rnd_of_int [of "- numeral k"] by simp

lemma rnd_1 [simp]: "rnd 1 = Fin 1"
  using rnd_of_int [of 1] by simp

















subsection \<open>Angles and the test of the unit disk\<close>






subsection \<open>Vectors and indices\<close>

lemma vec_set_length: "vec_set v n c = Some v1 \<Longrightarrow> length v1 = length v"
  by (auto simp: vec_set_def split: if_splits)

lemma vec_set_Some: "in_range n v \<Longrightarrow> vec_set v n c = Some (v[nat n := c])"
  by (simp add: vec_set_def)

lemma vec_get_set: "vec_set v n c = Some v1 \<Longrightarrow> vec_get v1 n = Some c"
  by (auto simp: vec_set_def vec_get_def in_range_def split: if_splits)

lemma vec_get_end: "vec_get v (int (length v)) = None"
  by (simp add: vec_get_def in_range_def)

lemma vec_set_end: "vec_set v (int (length v)) c = None"
  by (simp add: vec_set_def in_range_def)

lemma length_mat_vec: "length (mat_vec ext M v) = length M"
  by (simp add: mat_vec_def)

lemma length_Zero: "length (Zero n) = nat n"
  by (simp add: Zero_def)

text \<open>The flat index \<open>l\<^sup>2 + l + m\<close> of a valid pair lies below \<open>(lmax + 1)\<^sup>2\<close>.\<close>

lemma flat_index_bounds:
  fixes l m k :: int
  assumes "0 \<le> l" "l \<le> k" "- l \<le> m" "m \<le> l"
  shows "0 \<le> l * l + l + m \<and> l * l + l + m < (k + 1) * (k + 1)"
proof -
  have a: "0 \<le> l * l" by simp
  have "l * l + l + m \<le> l * l + 2 * l" using assms by simp
  also have "\<dots> < (l + 1) * (l + 1)" by (simp add: algebra_simps)
  also have "\<dots> \<le> (k + 1) * (k + 1)" using assms by (intro mult_mono) auto
  finally have "l * l + l + m < (k + 1) * (k + 1)" .
  moreover have "0 \<le> l * l + l + m" using a assms by linarith
  ultimately show ?thesis by simp
qed

lemma flat_index_in_range:
  assumes "well_formed st" "0 \<le> l" "l \<le> lmax st" "- l \<le> m" "m \<le> l"
  shows "in_range (l * l + l + m) (y st)"
  using flat_index_bounds[OF assms(2-5)] assms(1)
  by (simp add: in_range_def well_formed_def)

subsection \<open>What update leaves and what it recomputes\<close>

lemma update_fields:
  "y (update ext st) = y st" "axis (update ext st) = axis st" "B (update ext st) = B st"
  "lmax (update ext st) = lmax st" "N (update ext st) = N st"
  "Y00_is_unity (update ext st) = Y00_is_unity st"
  "tmp_vec (update ext st) = tmp_vec st" "tmp_col_vec (update ext st) = tmp_col_vec st"
  "p (update ext st) = mat_vec ext (A1 (B st)) (y st)"
  "g (update ext st) = mat_vec ext (A (B st)) (y st)"
  by (simp_all add: update_def Let_def)

lemma coherent_update: "coherent ext (update ext st)"
  by (simp add: coherent_def update_fields)

subsection \<open>The concrete maps\<close>

lemmas concrete_defs = ext1_def update_def mat_vec_def sum_of_products_def identity_def
  Zero_def yhat_def vec_set_def vec_get_def in_range_def Let_def

lemma ctor_map1: "Map_ctor ext1 1 False = Ok map1"
  by (simp add: Map_ctor_def reset_def INT_MAX_def map1_def basis1_def concrete_defs
      numeral_eq_Suc upt_rec)

lemma ctor_map1u: "Map_ctor ext1 1 True = Ok map1u"
  by (simp add: Map_ctor_def reset_def INT_MAX_def map1u_def basis1_def concrete_defs
      numeral_eq_Suc upt_rec)

lemma well_formed_map1: "well_formed map1"
  by (simp add: well_formed_def map1_def)

lemma well_formed_map1u: "well_formed map1u"
  by (simp add: well_formed_def map1u_def)

lemma failed_bulk_map1:
  "setCoeff_inds ext1 [1, 7] [Fin 5, Fin 0] map1 =
     (Raise IndexError, map1\<lparr>y := [Fin 0, Fin 5, Fin 0, Fin 0]\<rparr>)"
  by (simp add: setCoeff_inds_def map1_def s_ne_def vec_set_def in_range_def)

lemma setCoeff_map1:
  "setCoeff ext1 1 0 (Fin 5) map1 =
     (Ok (), map1\<lparr>y := [Fin 0, Fin 0, Fin 5, Fin 0], p := [Fin 0, Fin 0, Fin 5, Fin 0],
                  g := [Fin 0, Fin 0, Fin 5, Fin 0]\<rparr>)"
  by (simp add: setCoeff_def map1_def basis1_def concrete_defs)

lemma returned_map1: "returned ext1 False 1 False map1"
  by (rule returned.constructed [OF ctor_map1])

lemma returned_map1_set:
  "returned ext1 False 1 False
     (map1\<lparr>y := [Fin 0, Fin 0, Fin 5, Fin 0], p := [Fin 0, Fin 0, Fin 5, Fin 0],
           g := [Fin 0, Fin 0, Fin 5, Fin 0]\<rparr>)"
  by (rule returned.called [OF returned_map1, of "Op_setCoeff 1 0 (Fin 5)"])
     (simp add: setCoeff_map1)

lemma shapes_ok_ext1: "shapes_ok ext1"
  by (simp add: shapes_ok_def ext1_def Basis_shape_def identity_def Zero_def)

lemma reachable_map1: "reachable ext1 False 1 False map1"
  by (rule reachable.constructed [OF ctor_map1])

lemma reachable_failed_bulk:
  "reachable ext1 False 1 False (map1\<lparr>y := [Fin 0, Fin 5, Fin 0, Fin 0]\<rparr>)"
  by (rule reachable.called [OF reachable_map1, of "Op_setCoeff_inds [1, 7] [Fin 5, Fin 0]" "Raise IndexError"])
     (simp_all add: failed_bulk_map1)

subsection \<open>The flat index N in the bulk accessors\<close>

text \<open>
  C1. The bulk accessors test \<^verbatim>\<open>inds(i) > N\<close>, so the flat index \<open>N\<close> passes the test: on a
  map whose coefficient vector has its \<open>N\<close> entries, \<^verbatim>\<open>getCoeff(inds)\<close> with the single index
  \<open>N\<close> does not raise IndexError but reads \<^verbatim>\<open>y(N)\<close>, one past the end of the vector, and
  \<^verbatim>\<open>setCoeff(inds, coeffs)\<close> writes there (unless \<open>N\<close> is 0 and the ValueError test for
  \<open>Y\<^sub>0\<^sub>,\<^sub>0\<close> comes first).
\<close>

theorem bulk_accessors_accept_index_N:
  assumes "well_formed st"
  shows "getCoeff_inds [N st] st = Undefined \<and>
         fst (setCoeff_inds ext [N st] [c] st) =
           (if N st = 0 \<and> Y00_is_unity st \<and> s_ne c (Fin 1) then Raise ValueError else Undefined)"
proof -
  from assms have len: "N st = int (length (y st))"
    by (simp add: well_formed_def)
  have "getCoeff_inds [N st] st = Undefined"
    by (simp add: len vec_get_end)
  moreover have "fst (setCoeff_inds ext [N st] [c] st) =
      (if N st = 0 \<and> Y00_is_unity st \<and> s_ne c (Fin 1) then Raise ValueError else Undefined)"
    by (simp add: setCoeff_inds_def len vec_set_end)
  ultimately show ?thesis by simp
qed

theorem bulk_accessors_accept_index_N_witness:
  "well_formed map1u \<and> N map1u = 4 \<and> getCoeff_inds [4] map1u = Undefined \<and>
   fst (setCoeff_inds ext1 [4] [Fin 2] map1u) = Undefined"
proof -
  have n: "N map1u = 4" by (simp add: map1u_def)
  show ?thesis
    using bulk_accessors_accept_index_N [OF well_formed_map1u, of ext1 "Fin 2"] well_formed_map1u
    by (simp add: n)
qed

subsection \<open>Setting and reading one coefficient\<close>

text \<open>
  On a map with its \<open>N = (lmax + 1)\<^sup>2\<close> coefficients and for a pair with \<open>0 \<le> l \<le> lmax\<close> and
  \<open>- l \<le> m \<le> l\<close>, both accessors address the coefficient of flat index \<open>l\<^sup>2 + l + m\<close>:
  \<^verbatim>\<open>getCoeff(l, m)\<close> returns it, and \<^verbatim>\<open>setCoeff(l, m, v)\<close> writes \<open>v\<close> to it and to no other
  coefficient, unless it is refused with ValueError (\<open>l = 0\<close>, \<open>Y\<^sub>0\<^sub>,\<^sub>0\<close> fixed at unity,
  \<open>v \<noteq> 1\<close>); \<^verbatim>\<open>getCoeff(l, m)\<close> after the write returns \<open>v\<close>. For a pair outside the bounds
  \<^verbatim>\<open>getCoeff\<close> raises IndexError, and \<^verbatim>\<open>setCoeff\<close> raises IndexError and leaves the state as
  it was, unless its ValueError test, which comes first, applies. With \<open>l > lmax\<close> and
  \<open>l \<noteq> 0\<close> it always raises IndexError.
\<close>

lemma setCoeff_getCoeff:
  assumes "well_formed st"
  shows "(0 \<le> l \<and> l \<le> lmax st \<and> - l \<le> m \<and> m \<le> l \<longrightarrow>
            getCoeff l m st = Ok (y st ! nat (l * l + l + m)) \<and>
            (if l = 0 \<and> Y00_is_unity st \<and> s_ne v (Fin 1)
             then setCoeff ext l m v st = (Raise ValueError, st)
             else fst (setCoeff ext l m v st) = Ok () \<and>
                  y (snd (setCoeff ext l m v st)) = (y st)[nat (l * l + l + m) := v] \<and>
                  getCoeff l m (snd (setCoeff ext l m v st)) = Ok v)) \<and>
         (\<not> (0 \<le> l \<and> l \<le> lmax st \<and> - l \<le> m \<and> m \<le> l) \<longrightarrow>
            getCoeff l m st = Raise IndexError \<and>
            setCoeff ext l m v st =
              (if l = 0 \<and> Y00_is_unity st \<and> s_ne v (Fin 1) then (Raise ValueError, st)
               else (Raise IndexError, st))) \<and>
         (lmax st < l \<and> l \<noteq> 0 \<longrightarrow> setCoeff ext l m v st = (Raise IndexError, st))"
proof (intro conjI impI)
  assume b: "0 \<le> l \<and> l \<le> lmax st \<and> - l \<le> m \<and> m \<le> l"
  then have r: "in_range (l * l + l + m) (y st)"
    using flat_index_in_range [OF assms] by simp
  show "getCoeff l m st = Ok (y st ! nat (l * l + l + m))"
    using b r by (simp add: getCoeff_def vec_get_def)
  show "if l = 0 \<and> Y00_is_unity st \<and> s_ne v (Fin 1)
        then setCoeff ext l m v st = (Raise ValueError, st)
        else fst (setCoeff ext l m v st) = Ok () \<and>
             y (snd (setCoeff ext l m v st)) = (y st)[nat (l * l + l + m) := v] \<and>
             getCoeff l m (snd (setCoeff ext l m v st)) = Ok v"
  proof (cases "l = 0 \<and> Y00_is_unity st \<and> s_ne v (Fin 1)")
    case True
    then show ?thesis by (simp add: setCoeff_def)
  next
    case False
    have s: "setCoeff ext l m v st = (Ok (), update ext (st\<lparr>y := (y st)[nat (l * l + l + m) := v]\<rparr>))"
      using False b r by (auto simp: setCoeff_def vec_set_Some)
    have "vec_get ((y st)[nat (l * l + l + m) := v]) (l * l + l + m) = Some v"
      by (rule vec_get_set [OF vec_set_Some [OF r]])
    then have "getCoeff l m (update ext (st\<lparr>y := (y st)[nat (l * l + l + m) := v]\<rparr>)) = Ok v"
      using b by (simp add: getCoeff_def update_fields)
    with s False show ?thesis by (auto simp: update_fields)
  qed
next
  assume "\<not> (0 \<le> l \<and> l \<le> lmax st \<and> - l \<le> m \<and> m \<le> l)"
  then show "setCoeff ext l m v st =
      (if l = 0 \<and> Y00_is_unity st \<and> s_ne v (Fin 1) then (Raise ValueError, st)
       else (Raise IndexError, st))"
    and "getCoeff l m st = Raise IndexError"
    by (auto simp: setCoeff_def getCoeff_def)
next
  assume "lmax st < l \<and> l \<noteq> 0"
  then show "setCoeff ext l m v st = (Raise IndexError, st)"
    by (auto simp: setCoeff_def)
qed

text \<open>
  C4. The pair \<open>(0, 1)\<close> is outside the bounds, as \<open>m > l\<close>. On the map \<open>Map(1, true)\<close>, whose
  \<open>Y\<^sub>0\<^sub>,\<^sub>0\<close> is fixed at unity, \<^verbatim>\<open>getCoeff(0, 1)\<close> raises IndexError and so does
  \<^verbatim>\<open>setCoeff(0, 1, 1)\<close>, but \<^verbatim>\<open>setCoeff(0, 1, 2)\<close> raises ValueError: the test of line 167
  looks at \<open>l\<close> alone and comes before the test of the bounds.
\<close>

theorem setCoeff_outside_bounds_ValueError:
  "Map_ctor ext1 1 True = Ok map1u \<and>
   setCoeff ext1 0 1 (Fin 2) map1u = (Raise ValueError, map1u) \<and>
   setCoeff ext1 0 1 (Fin 1) map1u = (Raise IndexError, map1u) \<and>
   getCoeff 0 1 map1u = Raise IndexError"
  by (simp add: ctor_map1u setCoeff_def getCoeff_def s_ne_def) (simp add: map1u_def)

subsection \<open>A bulk setCoeff that raises\<close>

lemma offending_y [simp]: "offending (st\<lparr>y := v\<rparr>) nc = offending st nc"
  by (simp add: offending_def)

lemma setCoeff_loop_frame:
  "setCoeff_loop zs st = (r, st1) \<Longrightarrow> \<exists>v. st1 = st\<lparr>y := v\<rparr> \<and> length v = length (y st)"
proof (induction zs arbitrary: st)
  case Nil
  then have "st1 = st\<lparr>y := y st\<rparr>" by simp
  then show ?case by blast
next
  case (Cons z zs)
  obtain n c where z: "z = (n, c)" by (cases z)
  show ?case
  proof (cases "offending st (n, c)")
    case True
    then have "st1 = st\<lparr>y := y st\<rparr>"
      using Cons.prems z by (auto simp: offending_def split: if_splits)
    then show ?thesis by blast
  next
    case False
    show ?thesis
    proof (cases "vec_set (y st) n c")
      case None
      then have "st1 = st\<lparr>y := y st\<rparr>"
        using Cons.prems z False by (auto simp: offending_def split: if_splits)
      then show ?thesis by blast
    next
      case (Some v)
      then have "setCoeff_loop zs (st\<lparr>y := v\<rparr>) = (r, st1)"
        using Cons.prems z False by (auto simp: offending_def split: if_splits)
      from Cons.IH [OF this] obtain v1 where
        "st1 = st\<lparr>y := v\<rparr>\<lparr>y := v1\<rparr>" "length v1 = length (y (st\<lparr>y := v\<rparr>))" by blast
      then have "st1 = st\<lparr>y := v1\<rparr> \<and> length v1 = length (y st)"
        using vec_set_length [OF Some] by simp
      then show ?thesis by blast
    qed
  qed
qed

lemma setCoeff_loop_raise:
  "setCoeff_loop zs st = (Raise e, st1) \<Longrightarrow>
     \<exists>k<length zs. offending st (zs ! k) \<and> (\<forall>j<k. \<not> offending st (zs ! j)) \<and>
        st1 = st\<lparr>y := writes (take k zs) (y st)\<rparr>"
proof (induction zs arbitrary: st)
  case Nil
  then show ?case by simp
next
  case (Cons z zs)
  obtain n c where z: "z = (n, c)" by (cases z)
  show ?case
  proof (cases "offending st (n, c)")
    case True
    then have "st1 = st"
      using Cons.prems z by (auto simp: offending_def split: if_splits)
    then have "offending st ((z # zs) ! 0) \<and> (\<forall>j<0. \<not> offending st ((z # zs) ! j)) \<and>
        st1 = st\<lparr>y := writes (take 0 (z # zs)) (y st)\<rparr>"
      using True z by simp
    then show ?thesis by blast
  next
    case False
    then obtain v where v: "vec_set (y st) n c = Some v"
      and rest: "setCoeff_loop zs (st\<lparr>y := v\<rparr>) = (Raise e, st1)"
      using Cons.prems z by (auto simp: offending_def split: if_splits option.splits)
    have veq: "v = (y st)[nat n := c]"
      using v by (auto simp: vec_set_def split: if_splits)
    from Cons.IH [OF rest] obtain k where k: "k < length zs"
      "offending st (zs ! k)" "\<forall>j<k. \<not> offending st (zs ! j)"
      "st1 = st\<lparr>y := writes (take k zs) v\<rparr>"
      by auto
    have "\<forall>j<Suc k. \<not> offending st ((z # zs) ! j)"
      using k(3) False z by (auto simp: less_Suc_eq_0_disj)
    moreover have "st1 = st\<lparr>y := writes (take (Suc k) (z # zs)) (y st)\<rparr>"
      using k(4) z veq by simp
    ultimately have "Suc k < length (z # zs) \<and> offending st ((z # zs) ! Suc k) \<and>
        (\<forall>j<Suc k. \<not> offending st ((z # zs) ! j)) \<and>
        st1 = st\<lparr>y := writes (take (Suc k) (z # zs)) (y st)\<rparr>"
      using k(1,2) by simp
    then show ?thesis by blast
  qed
qed

text \<open>
  When the bulk \<^verbatim>\<open>setCoeff(inds, coeffs)\<close> raises, \<^verbatim>\<open>p\<close>, \<^verbatim>\<open>g\<close> and the axis are what they were
  before the call. After a size mismatch the whole state is unchanged. Otherwise the call
  stopped at the first pair \<open>k\<close> that fails the test of the loop, and the state differs from
  the one before the call in \<^verbatim>\<open>y\<close> only, which holds the writes of the \<open>k\<close> pairs before the
  offending one.
\<close>

lemma failed_setCoeff_inds_state:
  assumes "setCoeff_inds ext inds coeffs st = (Raise e, st1)"
  shows "p st1 = p st \<and> g st1 = g st \<and> axis st1 = axis st \<and>
         (if length inds \<noteq> length coeffs then st1 = st
          else \<exists>k<length inds. offending st (zip inds coeffs ! k) \<and>
                 (\<forall>j<k. \<not> offending st (zip inds coeffs ! j)) \<and>
                 st1 = st\<lparr>y := writes (take k (zip inds coeffs)) (y st)\<rparr>)"
proof (cases "length inds = length coeffs")
  case False
  then show ?thesis using assms by (simp add: setCoeff_inds_def)
next
  case True
  obtain r s where rs: "setCoeff_loop (zip inds coeffs) st = (r, s)"
    by (cases "setCoeff_loop (zip inds coeffs) st")
  have "r = Raise e \<and> s = st1"
    using assms True rs by (cases r) (auto simp: setCoeff_inds_def)
  then have "setCoeff_loop (zip inds coeffs) st = (Raise e, st1)"
    using rs by simp
  from setCoeff_loop_raise [OF this] obtain k where k: "k < length (zip inds coeffs)"
    "offending st (zip inds coeffs ! k)" "\<forall>j<k. \<not> offending st (zip inds coeffs ! j)"
    "st1 = st\<lparr>y := writes (take k (zip inds coeffs)) (y st)\<rparr>"
    by blast
  have "k < length inds" using k(1) by simp
  then have "\<exists>k<length inds. offending st (zip inds coeffs ! k) \<and>
      (\<forall>j<k. \<not> offending st (zip inds coeffs ! j)) \<and>
      st1 = st\<lparr>y := writes (take k (zip inds coeffs)) (y st)\<rparr>"
    using k(2,3,4) by blast
  moreover have "p st1 = p st \<and> g st1 = g st \<and> axis st1 = axis st"
    using k(4) by simp
  ultimately show ?thesis using True by simp
qed

text \<open>
  C2. On the map of degree 1 the call \<^verbatim>\<open>setCoeff([1, 7], [5, 0])\<close> raises IndexError at the
  second pair, and the coefficient of index 1, which preceded the offending one, remains
  written: \<^verbatim>\<open>getY()\<close> differs from before the call, while \<^verbatim>\<open>getP()\<close> and \<^verbatim>\<open>getG()\<close> are not
  recomputed.
\<close>

theorem failed_setCoeff_inds_keeps_writes:
  "fst (setCoeff_inds ext1 [1, 7] [Fin 5, Fin 0] map1) = Raise IndexError \<and>
   getY map1 = [Fin 0, Fin 0, Fin 0, Fin 0] \<and>
   getY (snd (setCoeff_inds ext1 [1, 7] [Fin 5, Fin 0] map1)) = [Fin 0, Fin 5, Fin 0, Fin 0] \<and>
   getP (snd (setCoeff_inds ext1 [1, 7] [Fin 5, Fin 0] map1)) = [Fin 0, Fin 0, Fin 0, Fin 0] \<and>
   getG (snd (setCoeff_inds ext1 [1, 7] [Fin 5, Fin 0] map1)) = [Fin 0, Fin 0, Fin 0, Fin 0]"
  by (simp add: failed_bulk_map1 getY_def getP_def getG_def) (simp add: map1_def)

subsection \<open>What the bulk accessors accept and refuse\<close>

text \<open>
  Beside the index \<open>N\<close>, the range test of the bulk accessors is the one of \<open>[0, N)\<close>: indices
  from 0 to \<open>N - 1\<close> are accepted, and a first index below 0 or above \<open>N\<close> raises IndexError.
\<close>

lemma getCoeff_inds_accepts:
  assumes "well_formed st" "\<forall>n\<in>set inds. 0 \<le> n \<and> n < N st"
  shows "getCoeff_inds inds st = Ok (map (\<lambda>n. y st ! nat n) inds)"
  using assms(2)
proof (induction inds)
  case Nil
  then show ?case by simp
next
  case (Cons n inds)
  have "in_range n (y st)"
    using Cons.prems assms(1) by (simp add: in_range_def well_formed_def)
  then have "vec_get (y st) n = Some (y st ! nat n)" by (simp add: vec_get_def)
  then show ?case using Cons by simp
qed

lemma getCoeff_inds_raises:
  assumes "well_formed st" "\<forall>k\<in>set pre. 0 \<le> k \<and> k < N st" "n < 0 \<or> n > N st"
  shows "getCoeff_inds (pre @ n # rest) st = Raise IndexError"
  using assms(2)
proof (induction pre)
  case Nil
  then show ?case using assms(3) by auto
next
  case (Cons k pre)
  have "in_range k (y st)"
    using Cons.prems assms(1) by (simp add: in_range_def well_formed_def)
  then have "vec_get (y st) k = Some (y st ! nat k)" by (simp add: vec_get_def)
  then show ?case using Cons by simp
qed

lemma setCoeff_loop_accepts:
  assumes "int (length (y st)) = N st"
    and "\<forall>nc\<in>set zs. 0 \<le> fst nc \<and> fst nc < N st \<and> \<not> offending st nc"
  shows "setCoeff_loop zs st = (Ok (), st\<lparr>y := writes zs (y st)\<rparr>)"
  using assms
proof (induction zs arbitrary: st)
  case Nil
  then show ?case by simp
next
  case (Cons z zs)
  obtain n c where z: "z = (n, c)" by (cases z)
  have r: "in_range n (y st)" using Cons.prems z by (simp add: in_range_def)
  have no: "\<not> offending st (n, c)" using Cons.prems(2) z by simp
  have "setCoeff_loop zs (st\<lparr>y := (y st)[nat n := c]\<rparr>) =
      (Ok (), st\<lparr>y := (y st)[nat n := c]\<rparr>\<lparr>y := writes zs (y (st\<lparr>y := (y st)[nat n := c]\<rparr>))\<rparr>)"
    using Cons.prems by (intro Cons.IH) simp_all
  then show ?case
    using no r z by (auto simp: offending_def vec_set_Some)
qed

lemma setCoeff_inds_accepts:
  assumes "well_formed st" "length inds = length coeffs"
    and "\<forall>nc\<in>set (zip inds coeffs). 0 \<le> fst nc \<and> fst nc < N st \<and> \<not> offending st nc"
  shows "fst (setCoeff_inds ext inds coeffs st) = Ok ()"
proof -
  have "int (length (y st)) = N st" using assms(1) by (simp add: well_formed_def)
  from setCoeff_loop_accepts [OF this assms(3)] show ?thesis
    using assms(2) by (simp add: setCoeff_inds_def)
qed

lemma setCoeff_inds_raises:
  assumes "n < 0 \<or> n > N st" "0 \<le> N st"
  shows "fst (setCoeff_inds ext [n] [c] st) = Raise IndexError"
  using assms by (auto simp: setCoeff_inds_def)

subsection \<open>evaluate writes only its temporaries and the Wigner object\<close>

lemma evaluate_with_gradient_frame:
  "evaluate_with_gradient ext multi theta x0 y0 st = (r, st1) \<Longrightarrow>
     y st1 = y st \<and> p st1 = p st \<and> g st1 = g st \<and> axis st1 = axis st \<and>
     lmax st1 = lmax st \<and> N st1 = N st \<and> B st1 = B st \<and> Y00_is_unity st1 = Y00_is_unity st"
  by (auto simp: evaluate_with_gradient_def Let_def split: if_splits option.splits)

lemma evaluate_frame:
  "evaluate ext multi theta x0 y0 grad st = (r, st1) \<Longrightarrow>
     y st1 = y st \<and> p st1 = p st \<and> g st1 = g st \<and> axis st1 = axis st \<and>
     lmax st1 = lmax st \<and> N st1 = N st \<and> B st1 = B st \<and> Y00_is_unity st1 = Y00_is_unity st"
proof (cases grad)
  case True
  assume "evaluate ext multi theta x0 y0 grad st = (r, st1)"
  then have "evaluate_with_gradient ext multi theta x0 y0 st = (r, st1)"
    using True by (simp add: evaluate_def)
  then show ?thesis by (rule evaluate_with_gradient_frame)
next
  case False
  assume "evaluate ext multi theta x0 y0 grad st = (r, st1)"
  then show ?thesis using False
    by (auto simp: evaluate_def Let_def split: if_splits option.splits prod.splits)
qed

text \<open>
  C7. For every angle, every point and either value of the gradient flag, \<^verbatim>\<open>evaluate\<close>
  leaves \<^verbatim>\<open>y\<close>, \<^verbatim>\<open>p\<close>, \<^verbatim>\<open>g\<close> and the axis of the map as they were, whatever its outcome: the
  rotated coefficients go to the temporary \<^verbatim>\<open>tmp_vec\<close>.
\<close>

theorem evaluate_leaves_base_state:
  "y (snd (evaluate ext multi theta x0 y0 grad st)) = y st \<and>
   p (snd (evaluate ext multi theta x0 y0 grad st)) = p st \<and>
   g (snd (evaluate ext multi theta x0 y0 grad st)) = g st \<and>
   axis (snd (evaluate ext multi theta x0 y0 grad st)) = axis st"
proof -
  obtain r st1 where e: "evaluate ext multi theta x0 y0 grad st = (r, st1)"
    by (cases "evaluate ext multi theta x0 y0 grad st")
  from evaluate_frame [OF e] show ?thesis by (simp add: e)
qed

theorem evaluate_leaves_base_state_witness:
  "y (snd (evaluate ext1 False (Fin 0) (Fin 2) (Fin 0) False map1u)) = [Fin 1, Fin 0, Fin 0, Fin 0] \<and>
   p (snd (evaluate ext1 False (Fin 0) (Fin 2) (Fin 0) False map1u)) = [Fin 1, Fin 0, Fin 0, Fin 0] \<and>
   g (snd (evaluate ext1 False (Fin 0) (Fin 2) (Fin 0) False map1u)) = [Fin 1, Fin 0, Fin 0, Fin 0] \<and>
   axis (snd (evaluate ext1 False (Fin 0) (Fin 2) (Fin 0) False map1u)) = (Fin 0, Fin 1, Fin 0)"
  using evaluate_leaves_base_state [of ext1 False "Fin 0" "Fin 2" "Fin 0" False map1u]
  by (simp add: map1u_def)

subsection \<open>The caches agree with the coefficients\<close>

lemma reset_coherent: "reset ext st = (Ok u, st1) \<Longrightarrow> coherent ext st1"
  by (auto simp: reset_def Let_def coherent_update split: if_splits option.splits)

lemma Map_ctor_coherent: "Map_ctor ext l0 flag = Ok st \<Longrightarrow> coherent ext st"
  by (auto simp: Map_ctor_def Let_def split: if_splits sum.splits prod.splits outcome.splits
      dest: reset_coherent)

lemma setCoeff_coherent: "setCoeff ext l m c st = (Ok u, st1) \<Longrightarrow> coherent ext st1"
  by (auto simp: setCoeff_def Let_def coherent_update split: if_splits option.splits)

lemma setCoeff_inds_coherent: "setCoeff_inds ext inds coeffs st = (Ok u, st1) \<Longrightarrow> coherent ext st1"
  by (auto simp: setCoeff_inds_def coherent_update split: if_splits prod.splits outcome.splits)

lemma setAxis_coherent: "coherent ext st \<Longrightarrow> coherent ext (setAxis ext v st)"
  by (cases v) (simp add: setAxis_def Let_def coherent_def)

lemma rotate_coherent: "coherent ext (rotate ext theta st)"
  by (simp add: rotate_def Let_def coherent_update split: prod.splits)

lemma evaluate_coherent:
  "coherent ext st \<Longrightarrow> evaluate ext multi theta x0 y0 grad st = (r, st1) \<Longrightarrow> coherent ext st1"
  using evaluate_frame [of ext multi theta x0 y0 grad st r st1] by (simp add: coherent_def)

lemma run_op_coherent:
  "coherent ext st \<Longrightarrow> run_op ext multi c st = (Ok u, st1) \<Longrightarrow> coherent ext st1"
proof (cases c)
  case (Op_evaluate theta x0 y0 grad)
  assume a: "coherent ext st" "run_op ext multi c st = (Ok u, st1)"
  obtain r s where e: "evaluate ext multi theta x0 y0 grad st = (r, s)"
    by (cases "evaluate ext multi theta x0 y0 grad st")
  with a Op_evaluate have "s = st1" by simp
  with evaluate_coherent [OF a(1) e] show ?thesis by simp
qed (auto simp: coherent_update dest: reset_coherent setCoeff_coherent setCoeff_inds_coherent
       intro: setAxis_coherent rotate_coherent)

lemma returned_coherent: "returned ext multi l0 flag st \<Longrightarrow> coherent ext st"
proof (induction rule: returned.induct)
  case (constructed st)
  then show ?case by (rule Map_ctor_coherent)
next
  case (called st c st1)
  show ?case by (rule run_op_coherent [OF called.IH called.hyps(2)])
qed

text \<open>
  As long as every call has returned normally, what \<^verbatim>\<open>getP()\<close> and \<^verbatim>\<open>getG()\<close> return is
  \<open>A1 y\<close> and \<open>A y\<close> for the coefficient vector \<^verbatim>\<open>getY()\<close> returns.
\<close>

lemma returned_caches_agree:
  assumes "returned ext multi l0 flag st"
  shows "getP st = mat_vec ext (A1 (B st)) (getY st) \<and> getG st = mat_vec ext (A (B st)) (getY st)"
  using returned_coherent [OF assms] by (simp add: coherent_def getP_def getG_def getY_def)

lemma setAxis_after_failed_bulk:
  "setAxis ext1 (Fin 0, Fin 0, Fin 1) (map1\<lparr>y := [Fin 0, Fin 5, Fin 0, Fin 0]\<rparr>) = map1_stale"
  by (simp add: setAxis_def Let_def map1_stale_def map1_def ext1_def)

lemma reachable_map1_stale: "reachable ext1 False 1 False map1_stale"
  by (rule reachable.called [OF reachable_failed_bulk, of "Op_setAxis (Fin 0, Fin 0, Fin 1)" "Ok ()"])
     (simp_all add: setAxis_after_failed_bulk)

text \<open>
  C6. The caches are stale after a bulk \<^verbatim>\<open>setCoeff\<close> that raised, and a later mutating call
  that returns normally does not repair them. On the map of degree 1,
  \<^verbatim>\<open>setCoeff([1, 7], [5, 0])\<close> raises IndexError with \<^verbatim>\<open>y(1)\<close> written, and \<^verbatim>\<open>setAxis((0, 0, 1))\<close>
  then returns normally: after it \<^verbatim>\<open>getY()\<close> is \<open>(0, 5, 0, 0)\<close>, and \<^verbatim>\<open>getP()\<close> and \<^verbatim>\<open>getG()\<close>
  are \<open>(0, 0, 0, 0)\<close>, where \<open>A1 y\<close> and \<open>A y\<close> are \<open>(0, 5, 0, 0)\<close>.
\<close>

theorem stale_caches_after_failed_setCoeff_inds:
  "reachable ext1 False 1 False map1_stale \<and>
   fst (setCoeff_inds ext1 [1, 7] [Fin 5, Fin 0] map1) = Raise IndexError \<and>
   run_op ext1 False (Op_setAxis (Fin 0, Fin 0, Fin 1))
     (snd (setCoeff_inds ext1 [1, 7] [Fin 5, Fin 0] map1)) = (Ok (), map1_stale) \<and>
   getY map1_stale = [Fin 0, Fin 5, Fin 0, Fin 0] \<and>
   getP map1_stale = [Fin 0, Fin 0, Fin 0, Fin 0] \<and>
   mat_vec ext1 (A1 (B map1_stale)) (getY map1_stale) = [Fin 0, Fin 5, Fin 0, Fin 0] \<and>
   getG map1_stale = [Fin 0, Fin 0, Fin 0, Fin 0] \<and>
   mat_vec ext1 (A (B map1_stale)) (getY map1_stale) = [Fin 0, Fin 5, Fin 0, Fin 0]"
  by (simp add: reachable_map1_stale failed_bulk_map1 setAxis_after_failed_bulk)
     (simp add: map1_stale_def map1_def basis1_def getY_def getP_def getG_def mat_vec_def
        ext1_def sum_of_products_def)

subsection \<open>The number of coefficients\<close>

lemma update_sized:
  assumes "lmax st = l0" "N st = (l0 + 1) * (l0 + 1)" "int (length (y st)) = N st"
    "Basis_shape l0 (B st)"
  shows "sized l0 (update ext st)"
proof -
  have "0 \<le> (l0 + 1) * (l0 + 1)" by simp
  then show ?thesis
    using assms by (simp add: sized_def update_fields length_mat_vec Basis_shape_def)
qed

lemma sized_y:
  "sized l0 st \<Longrightarrow> length v = length (y st) \<Longrightarrow> sized l0 (update ext (st\<lparr>y := v\<rparr>))"
  by (rule update_sized) (simp_all add: sized_def)

lemma reset_sized:
  assumes "lmax st = l0" "N st = (l0 + 1) * (l0 + 1)" "Basis_shape l0 (B st)"
    "reset ext st = (Ok u, st1)"
  shows "sized l0 st1"
proof -
  have n: "0 \<le> N st" using assms(2) by simp
  show ?thesis
  proof (cases "Y00_is_unity st")
    case False
    then have "st1 = update ext (st\<lparr>y := Zero (N st), axis := yhat\<rparr>)"
      using assms(4) n by (simp add: reset_def Let_def)
    moreover have "sized l0 (update ext (st\<lparr>y := Zero (N st), axis := yhat\<rparr>))"
      using assms n by (intro update_sized) (simp_all add: length_Zero)
    ultimately show ?thesis by simp
  next
    case True
    then obtain v where v: "vec_set (Zero (N st)) 0 (Fin 1) = Some v"
      and s: "st1 = update ext (st\<lparr>y := v, axis := yhat\<rparr>)"
      using assms(4) n by (auto simp: reset_def Let_def split: option.splits)
    have "length v = nat (N st)" using vec_set_length [OF v] by (simp add: length_Zero)
    then have "sized l0 (update ext (st\<lparr>y := v, axis := yhat\<rparr>))"
      using assms n by (intro update_sized) simp_all
    with s show ?thesis by simp
  qed
qed

lemma Map_ctor_sized:
  assumes "shapes_ok ext" "Map_ctor ext l0 flag = Ok st"
  shows "sized l0 st"
proof -
  from assms(2) obtain b w u where b: "Basis_ctor ext l0 = Inr b"
    and r: "reset ext \<lparr>lmax = l0, N = (l0 + 1) * (l0 + 1), y = Zero ((l0 + 1) * (l0 + 1)),
        p = [], g = [], axis = yhat, B = b, W = w, Y00_is_unity = flag,
        tmp_vec = Zero ((l0 + 1) * (l0 + 1)), tmp_col_vec = Zero ((l0 + 1) * (l0 + 1)),
        tmp_vec_ptr = Unset\<rparr> = (Ok u, st)"
    by (auto simp: Map_ctor_def Let_def split: if_splits sum.splits prod.splits outcome.splits)
  have "Basis_shape l0 b" using assms(1) b by (simp add: shapes_ok_def)
  then show ?thesis by (intro reset_sized [OF _ _ _ r]) simp_all
qed

lemma setCoeff_sized:
  assumes "sized l0 st" "setCoeff ext l m c st = (r, st1)" "r \<noteq> Undefined"
  shows "sized l0 st1"
  using assms
  by (auto simp: setCoeff_def Let_def split: if_splits option.splits
      intro!: sized_y dest: vec_set_length)

lemma setCoeff_inds_sized:
  assumes "sized l0 st" "setCoeff_inds ext inds coeffs st = (r, st1)"
  shows "sized l0 st1"
proof (cases "length inds = length coeffs")
  case False
  then show ?thesis using assms by (simp add: setCoeff_inds_def)
next
  case True
  obtain r0 s where rs: "setCoeff_loop (zip inds coeffs) st = (r0, s)"
    by (cases "setCoeff_loop (zip inds coeffs) st")
  from setCoeff_loop_frame [OF rs] obtain v where v: "s = st\<lparr>y := v\<rparr>" "length v = length (y st)"
    by blast
  have s: "sized l0 s" using assms(1) v by (simp add: sized_def)
  have u: "sized l0 (update ext s)" using sized_y [OF assms(1) v(2)] v(1) by simp
  show ?thesis using assms(2) True rs s u
    by (cases r0) (auto simp: setCoeff_inds_def)
qed

lemma setAxis_sized: "sized l0 st \<Longrightarrow> sized l0 (setAxis ext v st)"
  by (cases v) (simp add: setAxis_def Let_def sized_def)

lemma rotate_sized:
  assumes "shapes_ok ext" "sized l0 st"
  shows "sized l0 (rotate ext theta st)"
proof -
  obtain out w where o: "Wigner_rotate ext (y st) (axis st) (std_cos ext (radians theta))
      (std_sin ext (radians theta)) (W st) = (out, w)"
    by (cases "Wigner_rotate ext (y st) (axis st) (std_cos ext (radians theta))
      (std_sin ext (radians theta)) (W st)")
  have "length (fst (Wigner_rotate ext (y st) (axis st) (std_cos ext (radians theta))
      (std_sin ext (radians theta)) (W st))) = length (y st)"
    using assms(1) unfolding shapes_ok_def by blast
  then have len: "length out = length (y st)" by (simp add: o)
  have "rotate ext theta st = update ext (st\<lparr>y := out, W := w\<rparr>)"
    by (simp add: rotate_def Let_def o)
  moreover have "sized l0 (update ext (st\<lparr>y := out, W := w\<rparr>))"
    using assms(2) len by (intro update_sized) (simp_all add: sized_def)
  ultimately show ?thesis by simp
qed

lemma run_op_sized:
  assumes "shapes_ok ext" "sized l0 st" "run_op ext multi c st = (r, st1)" "r \<noteq> Undefined"
  shows "sized l0 st1"
proof (cases c)
  case Op_update
  then show ?thesis using assms sized_y [OF assms(2), of "y st" ext] by auto
next
  case Op_reset
  then have "reset ext st = (r, st1)" using assms(3) by simp
  moreover from this obtain u where "r = Ok u"
    using assms(4) by (cases r) (auto simp: reset_def Let_def split: if_splits option.splits)
  ultimately show ?thesis using assms(2) reset_sized [of st l0 ext u st1] by (simp add: sized_def)
next
  case (Op_setCoeff l m v)
  then show ?thesis using assms setCoeff_sized by auto
next
  case (Op_setCoeff_inds inds coeffs)
  then show ?thesis using assms setCoeff_inds_sized by auto
next
  case (Op_getCoeff l m)
  then show ?thesis using assms by auto
next
  case (Op_getCoeff_inds inds)
  then show ?thesis using assms by auto
next
  case (Op_setAxis v)
  then have "st1 = setAxis ext v st" using assms(3) by simp
  then show ?thesis using assms(2) by (simp add: setAxis_sized)
next
  case (Op_rotate theta)
  then have "st1 = rotate ext theta st" using assms(3) by simp
  then show ?thesis by (simp add: rotate_sized [OF assms(1,2)])
next
  case (Op_evaluate theta x0 y0 grad)
  obtain r0 s where e: "evaluate ext multi theta x0 y0 grad st = (r0, s)"
    by (cases "evaluate ext multi theta x0 y0 grad st")
  with assms(3) Op_evaluate have "s = st1" by simp
  with evaluate_frame [OF e] assms(2) show ?thesis by (simp add: sized_def)
qed

lemma reachable_sized:
  assumes "shapes_ok ext"
  shows "reachable ext multi l0 flag st \<Longrightarrow> sized l0 st"
proof (induction rule: reachable.induct)
  case (constructed st)
  then show ?case by (rule Map_ctor_sized [OF assms])
next
  case (called st c r st1)
  show ?case by (rule run_op_sized [OF assms called.IH called.hyps(2,3)])
qed

text \<open>
  C8. For a map constructed with degree \<open>l0\<close>, after the constructor and after any sequence
  of calls (raising ones included), \<^verbatim>\<open>lmax\<close> is \<open>l0\<close>, \<^verbatim>\<open>N\<close> is \<open>(l0 + 1)\<^sup>2\<close>, and \<^verbatim>\<open>y\<close>, \<^verbatim>\<open>p\<close>
  and \<^verbatim>\<open>g\<close> have exactly \<^verbatim>\<open>N\<close> coefficients. The lengths of \<^verbatim>\<open>p\<close> and \<^verbatim>\<open>g\<close> are the number of
  rows of the basis matrices, and a rotation has to return as many coefficients as it is
  given: that is the hypothesis \<open>shapes_ok\<close>.
\<close>

theorem coefficient_count:
  assumes "shapes_ok ext" "reachable ext multi l0 flag st"
  shows "lmax st = l0 \<and> N st = (l0 + 1) * (l0 + 1) \<and>
         int (length (getY st)) = N st \<and> int (length (getP st)) = N st \<and>
         int (length (getG st)) = N st"
  using reachable_sized [OF assms] by (simp add: sized_def getY_def getP_def getG_def)

theorem coefficient_count_witness:
  "shapes_ok ext1 \<and> reachable ext1 False 1 False (map1\<lparr>y := [Fin 0, Fin 5, Fin 0, Fin 0]\<rparr>) \<and>
   lmax (map1\<lparr>y := [Fin 0, Fin 5, Fin 0, Fin 0]\<rparr>) = 1 \<and>
   N (map1\<lparr>y := [Fin 0, Fin 5, Fin 0, Fin 0]\<rparr>) = 4 \<and>
   length (getY (map1\<lparr>y := [Fin 0, Fin 5, Fin 0, Fin 0]\<rparr>)) = 4 \<and>
   length (getP (map1\<lparr>y := [Fin 0, Fin 5, Fin 0, Fin 0]\<rparr>)) = 4 \<and>
   length (getG (map1\<lparr>y := [Fin 0, Fin 5, Fin 0, Fin 0]\<rparr>)) = 4"
  using coefficient_count [OF shapes_ok_ext1 reachable_failed_bulk] shapes_ok_ext1
    reachable_failed_bulk
  by simp

subsection \<open>Every state of a constructed map is well formed\<close>

text \<open>
  The hypothesis \<open>well_formed\<close> of the statements about single states holds after the
  constructor and after every sequence of calls, when the basis and the rotation have their
  shapes: the temporaries keep the \<^verbatim>\<open>N\<close> coefficients the constructor gave them.
\<close>

lemma overwrite_length: "overwrite es v = Some v1 \<Longrightarrow> length v1 = length v"
  by (auto simp: overwrite_def split: if_splits)

lemma evaluate_with_gradient_tmp:
  assumes "evaluate_with_gradient ext multi theta x0 y0 st = (r, st1)"
    and "length (A1 (B st)) = length (tmp_vec st)"
  shows "length (tmp_vec st1) = length (tmp_vec st) \<and>
         length (tmp_col_vec st1) = length (tmp_col_vec st)"
  using assms
  by (auto simp: evaluate_with_gradient_def Let_def length_mat_vec
      split: if_splits option.splits dest: overwrite_length)

lemma evaluate_tmp:
  assumes "evaluate ext multi theta x0 y0 grad st = (r, st1)"
    and "length (A1 (B st)) = length (tmp_vec st)"
  shows "length (tmp_vec st1) = length (tmp_vec st) \<and>
         length (tmp_col_vec st1) = length (tmp_col_vec st)"
proof (cases grad)
  case True
  then have "evaluate_with_gradient ext multi theta x0 y0 st = (r, st1)"
    using assms(1) by (simp add: evaluate_def)
  then show ?thesis using assms(2) by (rule evaluate_with_gradient_tmp)
next
  case False
  then show ?thesis using assms
    by (auto simp: evaluate_def Let_def poly_basis_def length_mat_vec
        split: if_splits option.splits prod.splits dest: overwrite_length)
qed

lemma setCoeff_tmp:
  "setCoeff ext l m c st = (r, st1) \<Longrightarrow>
     tmp_vec st1 = tmp_vec st \<and> tmp_col_vec st1 = tmp_col_vec st"
  by (auto simp: setCoeff_def Let_def update_fields split: if_splits option.splits)

lemma setCoeff_inds_tmp:
  assumes "setCoeff_inds ext inds coeffs st = (r, st1)"
  shows "tmp_vec st1 = tmp_vec st \<and> tmp_col_vec st1 = tmp_col_vec st"
proof (cases "length inds = length coeffs")
  case False
  then show ?thesis using assms by (simp add: setCoeff_inds_def)
next
  case True
  obtain r0 s where rs: "setCoeff_loop (zip inds coeffs) st = (r0, s)"
    by (cases "setCoeff_loop (zip inds coeffs) st")
  from setCoeff_loop_frame [OF rs] obtain v where v: "s = st\<lparr>y := v\<rparr>" by blast
  show ?thesis using assms True rs v
    by (cases r0) (auto simp: setCoeff_inds_def update_fields)
qed

lemma reset_tmp:
  "reset ext st = (r, st1) \<Longrightarrow> tmp_vec st1 = tmp_vec st \<and> tmp_col_vec st1 = tmp_col_vec st"
  by (auto simp: reset_def Let_def update_fields split: if_splits option.splits)

lemma setAxis_tmp:
  "tmp_vec (setAxis ext v st) = tmp_vec st \<and> tmp_col_vec (setAxis ext v st) = tmp_col_vec st"
  by (cases v) (simp add: setAxis_def Let_def)

lemma rotate_tmp:
  "tmp_vec (rotate ext theta st) = tmp_vec st \<and> tmp_col_vec (rotate ext theta st) = tmp_col_vec st"
  by (simp add: rotate_def Let_def update_fields split: prod.splits)

lemma run_op_tmp:
  assumes "run_op ext multi c st = (r, st1)" "length (A1 (B st)) = length (tmp_vec st)"
  shows "length (tmp_vec st1) = length (tmp_vec st) \<and>
         length (tmp_col_vec st1) = length (tmp_col_vec st)"
proof (cases c)
  case (Op_evaluate theta x0 y0 grad)
  obtain r0 s where e: "evaluate ext multi theta x0 y0 grad st = (r0, s)"
    by (cases "evaluate ext multi theta x0 y0 grad st")
  with assms(1) Op_evaluate have "s = st1" by simp
  with evaluate_tmp [OF e assms(2)] show ?thesis by simp
qed (use assms(1) in \<open>auto simp: update_fields setAxis_tmp rotate_tmp
       dest: reset_tmp setCoeff_tmp setCoeff_inds_tmp\<close>)

lemma Map_ctor_tmp:
  assumes "Map_ctor ext l0 flag = Ok st"
  shows "int (length (tmp_vec st)) = (l0 + 1) * (l0 + 1) \<and>
         int (length (tmp_col_vec st)) = (l0 + 1) * (l0 + 1)"
proof -
  have n: "0 \<le> (l0 + 1) * (l0 + 1)" by simp
  from assms obtain b w u where
    r: "reset ext \<lparr>lmax = l0, N = (l0 + 1) * (l0 + 1), y = Zero ((l0 + 1) * (l0 + 1)),
        p = [], g = [], axis = yhat, B = b, W = w, Y00_is_unity = flag,
        tmp_vec = Zero ((l0 + 1) * (l0 + 1)), tmp_col_vec = Zero ((l0 + 1) * (l0 + 1)),
        tmp_vec_ptr = Unset\<rparr> = (Ok u, st)"
    by (auto simp: Map_ctor_def Let_def split: if_splits sum.splits prod.splits outcome.splits)
  from reset_tmp [OF r] n show ?thesis by (simp add: length_Zero)
qed

lemma reachable_tmp:
  assumes "shapes_ok ext"
  shows "reachable ext multi l0 flag st \<Longrightarrow>
     int (length (tmp_vec st)) = (l0 + 1) * (l0 + 1) \<and>
     int (length (tmp_col_vec st)) = (l0 + 1) * (l0 + 1)"
proof (induction rule: reachable.induct)
  case (constructed st)
  then show ?case by (rule Map_ctor_tmp)
next
  case (called st c r st1)
  have s: "sized l0 st" by (rule reachable_sized [OF assms called.hyps(1)])
  have n: "0 \<le> (l0 + 1) * (l0 + 1)" by simp
  have "int (length (A1 (B st))) = int (length (tmp_vec st))"
    using s called.IH n by (simp add: sized_def Basis_shape_def)
  then have "length (A1 (B st)) = length (tmp_vec st)" by simp
  from run_op_tmp [OF called.hyps(2) this] called.IH show ?case by simp
qed

lemma reachable_well_formed:
  assumes "shapes_ok ext" "reachable ext multi l0 flag st"
  shows "well_formed st \<and> lmax st = l0"
  using reachable_sized [OF assms] reachable_tmp [OF assms]
  by (simp add: well_formed_def sized_def)

subsection \<open>The constructor and the degree\<close>

text \<open>
  C3. The constructor compares \<^verbatim>\<open>lmax\<close> with nothing: whenever the constructors of the two
  members \<^verbatim>\<open>B\<close> and \<^verbatim>\<open>W\<close> return and \<open>(lmax + 1)\<^sup>2\<close> fits an \<^verbatim>\<open>int\<close>, \<^verbatim>\<open>Map(lmax, flag)\<close> returns a
  map with that \<^verbatim>\<open>lmax\<close> and \<open>N = (lmax + 1)\<^sup>2\<close>, for every \<^verbatim>\<open>lmax\<close>, negative or above
  \<^verbatim>\<open>STARRY_MAX_LMAX\<close>. The one exception is \<open>lmax = - 1\<close> with \<open>Y\<^sub>0\<^sub>,\<^sub>0\<close> fixed at unity, where
  \<^verbatim>\<open>reset()\<close> writes \<^verbatim>\<open>y(0)\<close> of an empty vector.
\<close>

theorem Map_ctor_checks_no_bound:
  assumes "Basis_ctor ext l0 = Inr b"
    and "Wigner_ctor ext l0 (Zero ((l0 + 1) * (l0 + 1))) yhat = Inr w"
    and "l0 + 1 \<le> INT_MAX" and "(l0 + 1) * (l0 + 1) \<le> INT_MAX"
    and "\<not> (flag \<and> l0 = - 1)"
  shows "\<exists>st. Map_ctor ext l0 flag = Ok st \<and> lmax st = l0 \<and> N st = (l0 + 1) * (l0 + 1)"
proof -
  define st0 :: "'a Map" where "st0 =
    \<lparr>lmax = l0, N = (l0 + 1) * (l0 + 1), y = Zero ((l0 + 1) * (l0 + 1)), p = [], g = [],
     axis = yhat, B = b, W = w, Y00_is_unity = flag,
     tmp_vec = Zero ((l0 + 1) * (l0 + 1)), tmp_col_vec = Zero ((l0 + 1) * (l0 + 1)),
     tmp_vec_ptr = Unset\<rparr>"
  have c: "Map_ctor ext l0 flag =
      (case reset ext st0 of (Ok u, st) \<Rightarrow> Ok st | (Raise e, st) \<Rightarrow> Raise e
       | (Undefined, st) \<Rightarrow> Undefined)"
    using assms(1-4) by (simp add: Map_ctor_def Let_def st0_def)
  have n: "0 \<le> (l0 + 1) * (l0 + 1)" by simp
  have "\<exists>v. reset ext st0 = (Ok (), update ext (st0\<lparr>y := v, axis := yhat\<rparr>))"
  proof (cases flag)
    case False
    then have "reset ext st0 =
        (Ok (), update ext (st0\<lparr>y := Zero ((l0 + 1) * (l0 + 1)), axis := yhat\<rparr>))"
      by (simp add: reset_def Let_def st0_def)
    then show ?thesis by blast
  next
    case True
    then have "l0 + 1 \<noteq> 0" using assms(5) by simp
    then have "0 < (l0 + 1) * (l0 + 1)" using n by (simp add: less_le)
    then have "in_range 0 (Zero ((l0 + 1) * (l0 + 1)))"
      by (simp add: in_range_def length_Zero)
    then have "reset ext st0 =
        (Ok (), update ext (st0\<lparr>y := (Zero ((l0 + 1) * (l0 + 1)))[0 := Fin 1], axis := yhat\<rparr>))"
      using True by (simp add: reset_def Let_def st0_def vec_set_Some)
    then show ?thesis by blast
  qed
  then obtain v where "reset ext st0 = (Ok (), update ext (st0\<lparr>y := v, axis := yhat\<rparr>))"
    by blast
  then have "Map_ctor ext l0 flag = Ok (update ext (st0\<lparr>y := v, axis := yhat\<rparr>))"
    using c by simp
  moreover have "lmax (update ext (st0\<lparr>y := v, axis := yhat\<rparr>)) = l0"
    "N (update ext (st0\<lparr>y := v, axis := yhat\<rparr>)) = (l0 + 1) * (l0 + 1)"
    by (simp_all add: update_fields st0_def)
  ultimately show ?thesis by blast
qed

theorem Map_ctor_checks_no_bound_witness:
  "STARRY_MAX_LMAX < 51 \<and>
   (\<exists>st. Map_ctor ext1 51 False = Ok st \<and> lmax st = 51 \<and> N st = 2704) \<and>
   (\<exists>st. Map_ctor ext1 (- 2) True = Ok st \<and> lmax st = - 2 \<and> N st = 1)"
proof -
  have b: "\<And>l. \<exists>b. Basis_ctor ext1 l = Inr b" by (simp add: ext1_def)
  have w: "\<And>l v a. Wigner_ctor ext1 l v a = Inr ()" by (simp add: ext1_def)
  from b obtain b1 where b1: "Basis_ctor ext1 51 = Inr b1" by blast
  from b obtain b2 where b2: "Basis_ctor ext1 (- 2) = Inr b2" by blast
  show ?thesis
    using Map_ctor_checks_no_bound [OF b1 w, of False] Map_ctor_checks_no_bound [OF b2 w, of True]
    by (simp add: INT_MAX_def STARRY_MAX_LMAX_def)
qed

text \<open>An exception of the constructor is an exception of a member's constructor.\<close>

lemma Map_ctor_raises_from_members:
  assumes "Map_ctor ext l0 flag = Raise e"
  shows "Basis_ctor ext l0 = Inl e \<or>
         Wigner_ctor ext l0 (Zero ((l0 + 1) * (l0 + 1))) yhat = Inl e"
  using assms
  by (auto simp: Map_ctor_def Let_def reset_def
      split: if_splits sum.splits prod.splits outcome.splits option.splits)

subsection \<open>The number of polynomial terms\<close>






subsection \<open>The order of the polynomial terms\<close>



subsection \<open>The intensity inside and outside the unit disk\<close>





text \<open>
  The hypotheses on the state hold for every state of a constructed map of degree
  \<open>l0 \<ge> 0\<close>.
\<close>

lemma reachable_evaluable:
  assumes "shapes_ok ext" "reachable ext multi l0 flag st" "0 \<le> l0"
  shows "well_formed st \<and> 0 \<le> lmax st \<and> int (length (p st)) = N st \<and>
         int (length (A1 (B st))) = N st"
proof -
  have n: "0 \<le> (l0 + 1) * (l0 + 1)" by simp
  from reachable_sized [OF assms(1,2)] have s: "sized l0 st" .
  then have "int (length (A1 (B st))) = N st" using n by (simp add: sized_def Basis_shape_def)
  then show ?thesis using reachable_well_formed [OF assms(1,2)] s assms(3) by (simp add: sized_def)
qed






lemma shapes_ok_ext2: "shapes_ok ext2"
  by (simp add: shapes_ok_def ext2_def ext1_def Basis_shape_def identity_def Zero_def)













subsection \<open>reset and the axis\<close>

lemma setAxis_map1: "axis (setAxis ext1 (Fin 0, Fin 0, Fin 2) map1u) = (Fin 0, Fin 0, Fin 1)"
  by (simp add: setAxis_def Let_def map1u_def)

text \<open>
  C9. On a map with at least one coefficient every call of \<^verbatim>\<open>reset()\<close> returns normally,
  sets all coefficients to zero (the first one to 1 when \<open>Y\<^sub>0\<^sub>,\<^sub>0\<close> is fixed at unity) and sets
  the axis to \<open>yhat = (0, 1, 0)\<close>, also right after \<^verbatim>\<open>setAxis\<close> has installed another axis.
\<close>

theorem reset_restores_defaults:
  assumes "0 < N st"
  shows "fst (reset ext st) = Ok () \<and>
         y (snd (reset ext st)) =
           (if Y00_is_unity st then (Zero (N st))[0 := Fin 1] else Zero (N st)) \<and>
         axis (snd (reset ext st)) = yhat \<and>
         axis (snd (reset ext (setAxis ext v st))) = yhat"
proof -
  have r: "in_range 0 (Zero (N st))" using assms by (simp add: in_range_def length_Zero)
  have a: "reset ext st =
      (Ok (), update ext (st\<lparr>y := (if Y00_is_unity st then (Zero (N st))[0 := Fin 1] else Zero (N st)),
                             axis := yhat\<rparr>))"
    using assms by (simp add: reset_def Let_def vec_set_Some [OF r])
  have n: "N (setAxis ext v st) = N st" "Y00_is_unity (setAxis ext v st) = Y00_is_unity st"
    by (cases v; simp add: setAxis_def Let_def)+
  have b: "reset ext (setAxis ext v st) =
      (Ok (), update ext ((setAxis ext v st)\<lparr>y := (if Y00_is_unity st then (Zero (N st))[0 := Fin 1] else Zero (N st)),
                             axis := yhat\<rparr>))"
    using assms by (simp add: reset_def Let_def vec_set_Some [OF r] n)
  show ?thesis by (simp add: a b update_fields)
qed

theorem reset_restores_defaults_witness:
  "(0::int) < N map1u \<and> fst (reset ext1 map1u) = Ok () \<and>
   y (snd (reset ext1 map1u)) = [Fin 1, Fin 0, Fin 0, Fin 0] \<and>
   axis (setAxis ext1 (Fin 0, Fin 0, Fin 2) map1u) = (Fin 0, Fin 0, Fin 1) \<and>
   axis (snd (reset ext1 (setAxis ext1 (Fin 0, Fin 0, Fin 2) map1u))) = (Fin 0, Fin 1, Fin 0)"
proof -
  have n: "N map1u = 4" "Y00_is_unity map1u" by (simp_all add: map1u_def)
  have z: "(Zero 4)[0 := Fin 1] = [Fin 1, Fin 0, Fin 0, Fin 0]"
    by (simp add: Zero_def eval_nat_numeral)
  have h: "0 < N map1u" by (simp add: n)
  show ?thesis
    using reset_restores_defaults [OF h, of ext1 "(Fin 0, Fin 0, Fin 2)"] setAxis_map1
    by (simp add: n z yhat_def)
qed

subsection \<open>The error of a chain of roundings\<close>
















subsection \<open>setAxis divides without a test\<close>







end
